theory Spec2Isabelle
  imports Complex_Main
begin

section \<open>JavaScript values used by the pricing code\<close>

text \<open>
  A JavaScript number is \<open>NaN\<close>, one of the two infinities, or a finite value, which
  is modelled as an exact rational. A result of arithmetic that reaches the end of the
  range of a double becomes an infinity, as it does in the code; inside the range the
  result is kept exact, so the rounding of a double to 53 bits is not modelled, nor
  are underflow and the sign of zero. Arithmetic on \<open>NaN\<close> gives \<open>NaN\<close> and every
  comparison with \<open>NaN\<close> is false.
\<close>

datatype number = NaN | NegInf | PosInf | Fin rat

definition overflow_threshold :: rat where
  \<comment> \<open>the largest double plus half the gap to the next power of two: a result of
      this size or more is rounded to an infinity\<close>
  "overflow_threshold = 2 ^ 1024 - 2 ^ 970"

definition double_of :: "rat \<Rightarrow> number" where
  "double_of x =
     (if overflow_threshold \<le> x then PosInf
      else if x \<le> - overflow_threshold then NegInf
      else Fin x)"

fun js_neg :: "number \<Rightarrow> number" where
  "js_neg NaN = NaN"
| "js_neg NegInf = PosInf"
| "js_neg PosInf = NegInf"
| "js_neg (Fin x) = Fin (- x)"

fun js_add :: "number \<Rightarrow> number \<Rightarrow> number" where
  "js_add NaN b = NaN"
| "js_add a NaN = NaN"
| "js_add (Fin x) (Fin y) = double_of (x + y)"
| "js_add (Fin x) b = b"
| "js_add a (Fin y) = a"
| "js_add a b = (if a = b then a else NaN)"

definition js_sub :: "number \<Rightarrow> number \<Rightarrow> number" where
  "js_sub a b = js_add a (js_neg b)"

fun js_mul :: "number \<Rightarrow> number \<Rightarrow> number" where
  "js_mul NaN b = NaN"
| "js_mul a NaN = NaN"
| "js_mul (Fin x) (Fin y) = double_of (x * y)"
| "js_mul (Fin x) b = (if x = 0 then NaN else if 0 < x then b else js_neg b)"
| "js_mul a (Fin y) = (if y = 0 then NaN else if 0 < y then a else js_neg a)"
| "js_mul a b = (if a = b then PosInf else NegInf)"

fun js_half :: "number \<Rightarrow> number" where
  \<comment> \<open>\<open>a / 2\<close>, the only division of the pricing code\<close>
  "js_half (Fin x) = Fin (x / 2)"
| "js_half a = a"

fun js_lt :: "number \<Rightarrow> number \<Rightarrow> bool" where
  "js_lt NaN b = False"
| "js_lt a NaN = False"
| "js_lt PosInf b = False"
| "js_lt a NegInf = False"
| "js_lt NegInf b = True"
| "js_lt a PosInf = True"
| "js_lt (Fin x) (Fin y) = (x < y)"

definition js_gt :: "number \<Rightarrow> number \<Rightarrow> bool" where
  "js_gt a b = js_lt b a"

fun js_le :: "number \<Rightarrow> number \<Rightarrow> bool" where
  "js_le NaN b = False"
| "js_le a NaN = False"
| "js_le NegInf b = True"
| "js_le a PosInf = True"
| "js_le PosInf b = False"
| "js_le a NegInf = False"
| "js_le (Fin x) (Fin y) = (x \<le> y)"

definition js_ge :: "number \<Rightarrow> number \<Rightarrow> bool" where
  "js_ge a b = js_le b a"

definition Math_max :: "number \<Rightarrow> number \<Rightarrow> number" where
  \<comment> \<open>\<open>Math.max(a, b)\<close>: \<open>NaN\<close> as soon as one argument is \<open>NaN\<close>\<close>
  "Math_max a b = (if a = NaN \<or> b = NaN then NaN else if js_lt a b then b else a)"

definition Math_max_spread :: "number list \<Rightarrow> number" where
  \<comment> \<open>\<open>Math.max(...ms)\<close>, which is \<open>-Infinity\<close> for no argument\<close>
  "Math_max_spread ms = fold Math_max ms NegInf"

fun Math_round :: "number \<Rightarrow> number" where
  \<comment> \<open>\<open>Math.round\<close>: the nearest integer, a tie going up; \<open>NaN\<close> and the
      infinities stay as they are\<close>
  "Math_round (Fin x) = Fin (of_int \<lfloor>x + 1 / 2\<rfloor>)"
| "Math_round a = a"

text \<open>
  Reading \<open>obj[key]\<close> on an object literal gives the literal's own entry, or, for
  a key the literal does not have, what \<open>Object.prototype\<close> holds under that name
  (a function or an object), or \<open>undefined\<close>.
\<close>

datatype 'a property = Undefined | Own 'a | Inherited

definition Object_prototype_keys :: "string list" where
  "Object_prototype_keys =
     [''constructor'', ''hasOwnProperty'', ''isPrototypeOf'', ''propertyIsEnumerable'',
      ''toString'', ''toLocaleString'', ''valueOf'', ''__proto__'',
      ''__defineGetter__'', ''__defineSetter__'', ''__lookupGetter__'', ''__lookupSetter__'']"

definition get_property :: "(string \<times> 'a) list \<Rightarrow> string \<Rightarrow> 'a property" where
  "get_property obj key =
     (case map_of obj key of
        Some v \<Rightarrow> Own v
      | None \<Rightarrow> if key \<in> set Object_prototype_keys then Inherited else Undefined)"

definition or_number :: "rat property \<Rightarrow> rat \<Rightarrow> number" where
  \<comment> \<open>\<open>p || d\<close>, read as a number by the multiplication that follows: \<open>undefined\<close>
      and \<open>0\<close> are falsy and give \<open>d\<close>; a function or an object is truthy and
      converts to \<open>NaN\<close>\<close>
  "or_number p d =
     (case p of
        Undefined \<Rightarrow> Fin d
      | Own v \<Rightarrow> if v = 0 then Fin d else Fin v
      | Inherited \<Rightarrow> NaN)"

definition get_number :: "(string \<times> rat) list \<Rightarrow> string \<Rightarrow> number" where
  \<comment> \<open>\<open>obj.key\<close> for a key written in the code, read as a number: the entry, or
      \<open>NaN\<close> for \<open>undefined\<close>\<close>
  "get_number obj key = (case map_of obj key of Some v \<Rightarrow> Fin v | None \<Rightarrow> NaN)"

subsection \<open>parseInt\<close>

definition is_white_space :: "char \<Rightarrow> bool" where
  "is_white_space c \<longleftrightarrow> c \<in> set [CHR 0x09, CHR 0x0A, CHR 0x0B, CHR 0x0C, CHR 0x0D, CHR '' '']"

definition digit_value :: "char \<Rightarrow> nat option" where
  "digit_value c =
     (let n = (of_char c :: nat) in
      if 48 \<le> n \<and> n \<le> 57 then Some (n - 48)
      else if 97 \<le> n \<and> n \<le> 102 then Some (n - 87)
      else if 65 \<le> n \<and> n \<le> 70 then Some (n - 55)
      else None)"

definition is_digit :: "nat \<Rightarrow> char \<Rightarrow> bool" where
  "is_digit radix c = (case digit_value c of None \<Rightarrow> False | Some d \<Rightarrow> d < radix)"

definition digits_value :: "nat \<Rightarrow> string \<Rightarrow> nat" where
  "digits_value radix ds =
     foldl (\<lambda>acc c. acc * radix + (case digit_value c of None \<Rightarrow> 0 | Some d \<Rightarrow> d)) 0 ds"

definition parseInt :: "string \<Rightarrow> number" where
  \<comment> \<open>\<open>parseInt(s)\<close> with no radix: leading white space, a sign, a \<open>0x\<close> prefix,
      then the longest run of digits; \<open>NaN\<close> when that run is empty, an infinity when
      the digits pass the range of a double. Characters are ASCII: white space beyond
      it is not modelled.\<close>
  "parseInt s =
     (let t = dropWhile is_white_space s;
          negative = (t \<noteq> [] \<and> hd t = CHR ''-'');
          t1 = (if t \<noteq> [] \<and> (hd t = CHR ''+'' \<or> hd t = CHR ''-'') then tl t else t);
          hex = (take 2 t1 = ''0x'' \<or> take 2 t1 = ''0X'');
          radix = (if hex then 16 else 10);
          t2 = (if hex then drop 2 t1 else t1);
          ds = takeWhile (is_digit radix) t2
      in if ds = [] then NaN
         else double_of (if negative then - of_nat (digits_value radix ds)
                         else of_nat (digits_value radix ds)))"

section \<open>The component's state\<close>

record form_data =
  clientName :: string
  email :: string
  phone :: string
  address :: string
  projectType :: string
  squareFootage :: string
  paintTier :: string
  surfaces :: "string list"
  difficultyLevel :: string
  additionalNotes :: string

record estimate_result =
  min_price :: number
  max_price :: number
  tierName :: "string property"

record app_state =
  formData :: form_data
  estimate :: "estimate_result option"

definition initial_formData :: form_data where
  "initial_formData =
     \<lparr>clientName = '''', email = '''', phone = '''', address = '''', projectType = '''',
      squareFootage = '''', paintTier = '''', surfaces = [], difficultyLevel = ''basic'',
      additionalNotes = ''''\<rparr>"

section \<open>Rates and multipliers\<close>

record rates =
  min_rate :: rat
  max_rate :: rat

definition BASE_RATES :: rates where
  "BASE_RATES = \<lparr>min_rate = 15 / 10, max_rate = 35 / 10\<rparr>"

definition BASE_RATES_part_000 :: rates where
  \<comment> \<open>the base band of the second copy of the component (\<open>unnamed/part_000\<close>),
      which is otherwise the same code\<close>
  "BASE_RATES_part_000 = \<lparr>min_rate = 175 / 100, max_rate = 3\<rparr>"

definition PAINT_MULTIPLIERS :: "(string \<times> rat) list" where
  "PAINT_MULTIPLIERS = [(''standard'', 1), (''premium'', 13 / 10), (''designer'', 16 / 10)]"

definition DIFFICULTY_MULTIPLIERS :: "(string \<times> rat) list" where
  "DIFFICULTY_MULTIPLIERS =
     [(''basic'', 1), (''standard'', 12 / 10), (''moderate'', 15 / 10), (''complex'', 2),
      (''high_difficulty'', 25 / 10)]"

definition SURFACE_MULTIPLIERS_interior :: "(string \<times> rat) list" where
  "SURFACE_MULTIPLIERS_interior = [(''walls'', 1), (''ceilings'', 4 / 10), (''trim'', 3 / 10)]"

definition SURFACE_MULTIPLIERS_exterior :: "(string \<times> rat) list" where
  "SURFACE_MULTIPLIERS_exterior =
     [(''wood_siding'', 1), (''vinyl_siding'', 11 / 10), (''cement'', 13 / 10),
      (''stucco'', 15 / 10), (''brick'', 16 / 10), (''trim'', 2 / 10)]"

definition absoluteMin :: rat where
  "absoluteMin = 3000"

definition rangeSpread :: rat where
  "rangeSpread = 3000"

definition tierNames :: "(string \<times> string) list" where
  "tierNames =
     [(''standard'', ''Standard Paint''), (''premium'', ''Premium Paint''),
      (''designer'', ''Designer/Specialty Paint'')]"

section \<open>calculateEstimate\<close>

definition paintMultiplier :: "form_data \<Rightarrow> number" where
  "paintMultiplier fd = or_number (get_property PAINT_MULTIPLIERS (paintTier fd)) 1"

definition difficultyMultiplier :: "form_data \<Rightarrow> number" where
  "difficultyMultiplier fd = or_number (get_property DIFFICULTY_MULTIPLIERS (difficultyLevel fd)) 1"

subsection \<open>The surface multiplier\<close>

definition interior_surfaceMultiplier :: "string list \<Rightarrow> number" where
  \<comment> \<open>the \<open>interior\<close> branch: the weights of the selected surfaces added up from 0,
      plus 0.8 when walls are not selected and the sum is positive\<close>
  "interior_surfaceMultiplier ss =
     (let m0 = Fin 0;
          m1 = (if ''walls'' \<in> set ss
                then js_add m0 (get_number SURFACE_MULTIPLIERS_interior ''walls'') else m0);
          m2 = (if ''ceilings'' \<in> set ss
                then js_add m1 (get_number SURFACE_MULTIPLIERS_interior ''ceilings'') else m1);
          m3 = (if ''trim'' \<in> set ss
                then js_add m2 (get_number SURFACE_MULTIPLIERS_interior ''trim'') else m2)
      in if ''walls'' \<notin> set ss \<and> js_gt m3 (Fin 0) then js_add m3 (Fin (8 / 10)) else m3)"

definition exteriorSurfaces :: "string list \<Rightarrow> string list" where
  "exteriorSurfaces ss =
     filter (\<lambda>surface. surface \<in> set [''wood_siding'', ''vinyl_siding'', ''cement'', ''stucco'', ''brick'']) ss"

definition exteriorMultipliers :: "string list \<Rightarrow> number list" where
  "exteriorMultipliers ss =
     map (\<lambda>surface. or_number (get_property SURFACE_MULTIPLIERS_exterior surface) 1)
       (exteriorSurfaces ss)"

definition exterior_surfaceMultiplier :: "number \<Rightarrow> string list \<Rightarrow> number" where
  \<comment> \<open>the branch taken for \<open>exterior\<close> and for \<open>both\<close>; \<open>current\<close> is the value of
      \<open>surfaceMultiplier\<close> on entry, kept when neither test succeeds\<close>
  "exterior_surfaceMultiplier current ss =
     (if exteriorSurfaces ss \<noteq> [] then
        (let m = Math_max_spread (exteriorMultipliers ss)
         in if ''trim'' \<in> set ss
            then js_add m (get_number SURFACE_MULTIPLIERS_exterior ''trim'') else m)
      else if ''trim'' \<in> set ss
        then js_add (Fin 1) (get_number SURFACE_MULTIPLIERS_exterior ''trim'')
      else current)"

definition interiorSurfaces :: "string list \<Rightarrow> string list" where
  "interiorSurfaces ss = filter (\<lambda>surface. surface \<in> set [''walls'', ''ceilings'']) ss"

definition both_interiorMultiplier :: "string list \<Rightarrow> number" where
  \<comment> \<open>\<open>interiorMultiplier\<close> of the \<open>both\<close> block, as it stands when the mean is taken\<close>
  "both_interiorMultiplier ss =
     (let i0 = Fin 0;
          i1 = (if interiorSurfaces ss \<noteq> [] then
                  (let w = (if ''walls'' \<in> set ss
                            then js_add i0 (get_number SURFACE_MULTIPLIERS_interior ''walls'') else i0)
                   in if ''ceilings'' \<in> set ss
                      then js_add w (get_number SURFACE_MULTIPLIERS_interior ''ceilings'') else w)
                else i0)
      in if ''trim'' \<in> set ss then
           (if interiorSurfaces ss \<noteq> []
            then js_add i1 (get_number SURFACE_MULTIPLIERS_interior ''trim'') else i1)
         else i1)"

definition both_exteriorMultiplier :: "string list \<Rightarrow> number" where
  \<comment> \<open>\<open>exteriorMultiplier\<close> of the \<open>both\<close> block, as it stands when the mean is taken\<close>
  "both_exteriorMultiplier ss =
     (let e0 = Fin 1;
          e1 = (if exteriorSurfaces ss \<noteq> [] then Math_max_spread (exteriorMultipliers ss) else e0)
      in if ''trim'' \<in> set ss then
           (if exteriorSurfaces ss \<noteq> []
            then js_add e1 (get_number SURFACE_MULTIPLIERS_exterior ''trim'') else e1)
         else e1)"

definition both_surfaceMultiplier :: "string list \<Rightarrow> number" where
  "both_surfaceMultiplier ss =
     js_half (js_add (Math_max (both_interiorMultiplier ss) (Fin 1)) (both_exteriorMultiplier ss))"

definition surfaceMultiplier :: "form_data \<Rightarrow> number" where
  "surfaceMultiplier fd =
     (if surfaces fd \<noteq> [] then
        (let m = (if projectType fd = ''interior'' then interior_surfaceMultiplier (surfaces fd)
                  else if projectType fd = ''exterior'' \<or> projectType fd = ''both''
                    then exterior_surfaceMultiplier (Fin 1) (surfaces fd)
                  else Fin 1)
         in if projectType fd = ''both'' then both_surfaceMultiplier (surfaces fd) else m)
      else Fin 1)"

subsection \<open>The price band\<close>

definition base_band :: "rates \<Rightarrow> form_data \<Rightarrow> number \<times> number" where
  \<comment> \<open>\<open>(baseMin, baseMax)\<close> after the three multiplications\<close>
  "base_band r fd =
     (let baseMin = js_mul (Fin (min_rate r)) (paintMultiplier fd);
          baseMax = js_mul (Fin (max_rate r)) (paintMultiplier fd);
          baseMin = js_mul baseMin (difficultyMultiplier fd);
          baseMax = js_mul baseMax (difficultyMultiplier fd)
      in (js_mul baseMin (surfaceMultiplier fd), js_mul baseMax (surfaceMultiplier fd)))"

definition raw_prices :: "rates \<Rightarrow> form_data \<Rightarrow> number \<times> number" where
  \<comment> \<open>\<open>(minPrice, maxPrice)\<close> before the two floors\<close>
  "raw_prices r fd =
     (let sqftNum = parseInt (squareFootage fd)
      in (js_mul sqftNum (fst (base_band r fd)), js_mul sqftNum (snd (base_band r fd))))"

definition spread_floor :: "number \<times> number \<Rightarrow> number \<times> number" where
  "spread_floor p =
     (case p of (minPrice, maxPrice) \<Rightarrow>
        if js_lt (js_sub maxPrice minPrice) (Fin rangeSpread)
        then (minPrice, js_add minPrice (Fin rangeSpread))
        else (minPrice, maxPrice))"

definition absolute_floor :: "number \<times> number \<Rightarrow> number \<times> number" where
  "absolute_floor p =
     (case p of (minPrice, maxPrice) \<Rightarrow>
        if js_lt minPrice (Fin absoluteMin)
        then (Fin absoluteMin, Math_max maxPrice (js_add (Fin absoluteMin) (Fin rangeSpread)))
        else (minPrice, maxPrice))"

definition estimate_with :: "rates \<Rightarrow> form_data \<Rightarrow> estimate_result" where
  \<comment> \<open>the object \<open>result\<close> that \<open>calculateEstimate\<close> builds\<close>
  "estimate_with r fd =
     (let p = absolute_floor (spread_floor (raw_prices r fd))
      in \<lparr>min_price = Math_round (fst p), max_price = Math_round (snd p),
          tierName = get_property tierNames (paintTier fd)\<rparr>)"

definition calculateEstimate_with :: "rates \<Rightarrow> app_state \<Rightarrow> app_state" where
  "calculateEstimate_with r st =
     (if projectType (formData st) = [] \<or> squareFootage (formData st) = []
         \<or> paintTier (formData st) = []
      then st
      else st\<lparr>estimate := Some (estimate_with r (formData st))\<rparr>)"

definition calculateEstimate :: "app_state \<Rightarrow> app_state" where
  "calculateEstimate = calculateEstimate_with BASE_RATES"

definition calculateEstimate_part_000 :: "app_state \<Rightarrow> app_state" where
  "calculateEstimate_part_000 = calculateEstimate_with BASE_RATES_part_000"

subsection \<open>The tier handler and the surface options\<close>

definition handleTierSelect :: "string \<Rightarrow> app_state \<Rightarrow> app_state" where
  "handleTierSelect tier st = st\<lparr>formData := (formData st)\<lparr>paintTier := tier\<rparr>\<rparr>"

definition getInteriorSurfaces :: "string list" where
  \<comment> \<open>the \<open>id\<close>s of the interior surface options\<close>
  "getInteriorSurfaces = [''walls'', ''ceilings'', ''trim'']"

definition getExteriorSurfaces :: "string list" where
  \<comment> \<open>the \<open>id\<close>s of the exterior surface options\<close>
  "getExteriorSurfaces = [''wood_siding'', ''trim'', ''stucco'', ''cement'', ''vinyl_siding'', ''brick'']"

definition getSurfaceOptions :: "string \<Rightarrow> string list" where
  "getSurfaceOptions pt =
     (if pt = ''interior'' then getInteriorSurfaces
      else if pt = ''exterior'' then getExteriorSurfaces
      else if pt = ''both'' then getInteriorSurfaces @ getExteriorSurfaces
      else [])"

section \<open>The precondition on the input\<close>

text \<open>
  The inputs the properties below are about: a known project type with surfaces among
  the options offered for it, a square footage that reads as a number of at least 100,
  a paint tier and a difficulty level that are keys of their tables.
\<close>

definition valid_surfaces :: "string \<Rightarrow> string list \<Rightarrow> bool" where
  \<comment> \<open>a known project type, and only surfaces offered for it\<close>
  "valid_surfaces pt ss \<longleftrightarrow>
     pt \<in> set [''interior'', ''exterior'', ''both''] \<and> list_all (\<lambda>s. s \<in> set (getSurfaceOptions pt)) ss"

definition valid_squareFootage :: "string \<Rightarrow> bool" where
  \<comment> \<open>a non-empty field that \<open>parseInt\<close> reads as a number, at least 100; a
      digit string too long for a double reads as \<open>Infinity\<close> and is let through, as
      it is by the form\<close>
  "valid_squareFootage s = js_ge (parseInt s) (Fin 100)"

definition valid_input :: "form_data \<Rightarrow> bool" where
  "valid_input fd \<longleftrightarrow>
     valid_surfaces (projectType fd) (surfaces fd)
     \<and> valid_squareFootage (squareFootage fd)
     \<and> paintTier fd \<in> set [''standard'', ''premium'', ''designer'']
     \<and> difficultyLevel fd \<in> set [''basic'', ''standard'', ''moderate'', ''complex'', ''high_difficulty'']"

section \<open>Concrete inputs\<close>

definition scenario_A :: form_data where
  "scenario_A = initial_formData\<lparr>projectType := ''interior'', squareFootage := ''1000'',
     paintTier := ''standard'', difficultyLevel := ''basic'', surfaces := [''walls'']\<rparr>"

definition scenario_B :: form_data where
  "scenario_B = initial_formData\<lparr>projectType := ''exterior'', squareFootage := ''2000'',
     paintTier := ''premium'', difficultyLevel := ''standard'', surfaces := [''brick'', ''trim'']\<rparr>"

definition both_trim_only :: form_data where
  "both_trim_only = initial_formData\<lparr>projectType := ''both'', squareFootage := ''1500'',
     paintTier := ''standard'', difficultyLevel := ''basic'', surfaces := [''trim'']\<rparr>"

definition tie_example :: form_data where
  \<comment> \<open>an input whose premium price before the floors is 3000.27\<close>
  "tie_example = initial_formData\<lparr>projectType := ''interior'', squareFootage := ''1099'',
     paintTier := ''standard'', surfaces := [''walls'', ''ceilings'']\<rparr>"

definition inherited_tier :: form_data where
  \<comment> \<open>scenario A with a paint tier that is no key of the tier table\<close>
  "inherited_tier = scenario_A\<lparr>paintTier := ''constructor''\<rparr>"


definition overflow_tiers :: form_data where
  \<comment> \<open>a square footage of 15 followed by 307 zeros\<close>
  "overflow_tiers = initial_formData\<lparr>projectType := ''interior'',
     squareFootage := ''15'' @ replicate 307 (CHR ''0''),
     paintTier := ''standard'', difficultyLevel := ''basic'', surfaces := [''walls'']\<rparr>"

section \<open>Auxiliary facts\<close>

subsection \<open>Numbers inside and outside the range of a double\<close>

lemma overflow_threshold_large: "1000000000000 < overflow_threshold"
  by (simp add: overflow_threshold_def)

lemma overflow_threshold_bounds:
  "10 ^ 308 < overflow_threshold" "15 * 10 ^ 307 < overflow_threshold"
  "overflow_threshold \<le> 6 * 10 ^ 308" "overflow_threshold \<le> 15 / 10 * (15 * 10 ^ 307)"
  by (simp_all add: overflow_threshold_def)

lemma double_of_small:
  "- 1000000000000 \<le> x \<Longrightarrow> x \<le> 1000000000000 \<Longrightarrow> double_of x = Fin x"
  using overflow_threshold_large by (simp add: double_of_def)

lemma double_of_nonneg:
  "0 \<le> x \<Longrightarrow> double_of x = (if overflow_threshold \<le> x then PosInf else Fin x)"
  using overflow_threshold_large by (simp add: double_of_def)

lemma js_Fin:
  "js_sub (Fin x) (Fin y) = double_of (x - y)"
  "js_gt (Fin x) (Fin y) \<longleftrightarrow> y < x"
  "js_ge (Fin x) (Fin y) \<longleftrightarrow> y \<le> x"
  "Math_max (Fin x) (Fin y) = Fin (max x y)"
  by (auto simp: js_sub_def js_gt_def js_ge_def Math_max_def max_def)

lemma between_FinE:
  assumes "js_le (Fin lo) a" and "js_le a (Fin hi)"
  obtains x where "a = Fin x" and "lo \<le> x" and "x \<le> hi"
  using assms by (cases a) simp_all

lemma between_FinI: "lo \<le> x \<Longrightarrow> x \<le> hi \<Longrightarrow> js_le (Fin lo) (Fin x) \<and> js_le (Fin x) (Fin hi)"
  by simp

subsection \<open>Every surface multiplier is a finite number between 1 and 2\<close>

lemma Math_max_between:
  assumes "js_le (Fin lo) a \<and> js_le a (Fin hi)" and "js_le (Fin lo) b \<and> js_le b (Fin hi)"
  shows "js_le (Fin lo) (Math_max a b) \<and> js_le (Math_max a b) (Fin hi)"
proof -
  from assms(1) obtain x where x: "a = Fin x" "lo \<le> x" "x \<le> hi" by (blast elim: between_FinE)
  from assms(2) obtain y where y: "b = Fin y" "lo \<le> y" "y \<le> hi" by (blast elim: between_FinE)
  from x y show ?thesis by (simp add: js_Fin)
qed

lemma fold_Math_max_between:
  assumes "\<forall>m \<in> set ms. js_le (Fin lo) m \<and> js_le m (Fin hi)"
    and "js_le (Fin lo) a \<and> js_le a (Fin hi)"
  shows "js_le (Fin lo) (fold Math_max ms a) \<and> js_le (fold Math_max ms a) (Fin hi)"
  using assms
proof (induction ms arbitrary: a)
  case Nil
  then show ?case by simp
next
  case (Cons m ms)
  from Cons.prems have m: "js_le (Fin lo) m \<and> js_le m (Fin hi)"
    and rest: "\<forall>m \<in> set ms. js_le (Fin lo) m \<and> js_le m (Fin hi)" by simp_all
  from Math_max_between [OF m Cons.prems(2)] Cons.IH [OF rest] show ?case by simp
qed

lemma Math_max_spread_between:
  assumes "ms \<noteq> []" and "\<forall>m \<in> set ms. js_le (Fin lo) m \<and> js_le m (Fin hi)"
  shows "js_le (Fin lo) (Math_max_spread ms) \<and> js_le (Math_max_spread ms) (Fin hi)"
proof -
  from assms(1) obtain m ms' where ms: "ms = m # ms'" by (cases ms) auto
  with assms(2) have m: "js_le (Fin lo) m \<and> js_le m (Fin hi)"
    and rest: "\<forall>m \<in> set ms'. js_le (Fin lo) m \<and> js_le m (Fin hi)" by simp_all
  from m obtain v where v: "m = Fin v" by (blast elim: between_FinE)
  then have "Math_max m NegInf = m" by (simp add: Math_max_def)
  with fold_Math_max_between [OF rest m] ms show ?thesis by (simp add: Math_max_spread_def)
qed

lemma exterior_weight_between:
  assumes "s \<in> set [''wood_siding'', ''vinyl_siding'', ''cement'', ''stucco'', ''brick'']"
  shows "js_le (Fin 1) (or_number (get_property SURFACE_MULTIPLIERS_exterior s) 1)
         \<and> js_le (or_number (get_property SURFACE_MULTIPLIERS_exterior s) 1) (Fin (16 / 10))"
proof -
  from assms have "s = ''wood_siding'' \<or> s = ''vinyl_siding'' \<or> s = ''cement'' \<or> s = ''stucco'' \<or> s = ''brick''"
    by simp
  then show ?thesis
    by (elim disjE) (simp_all add: get_property_def or_number_def SURFACE_MULTIPLIERS_exterior_def)
qed

lemma exteriorMultipliers_between:
  "\<forall>m \<in> set (exteriorMultipliers ss). js_le (Fin 1) m \<and> js_le m (Fin (16 / 10))"
proof
  fix m assume "m \<in> set (exteriorMultipliers ss)"
  then obtain s where "s \<in> set (exteriorSurfaces ss)"
    and m: "m = or_number (get_property SURFACE_MULTIPLIERS_exterior s) 1"
    unfolding exteriorMultipliers_def by (auto simp only: set_map image_iff)
  then have "s \<in> set [''wood_siding'', ''vinyl_siding'', ''cement'', ''stucco'', ''brick'']"
    unfolding exteriorSurfaces_def by (simp only: set_filter mem_Collect_eq)
  from exterior_weight_between [OF this] m show "js_le (Fin 1) m \<and> js_le m (Fin (16 / 10))" by simp
qed

lemma exterior_max_between:
  assumes "exteriorSurfaces ss \<noteq> []"
  obtains b where "Math_max_spread (exteriorMultipliers ss) = Fin b" and "1 \<le> b" and "b \<le> 16 / 10"
proof -
  from assms have "exteriorMultipliers ss \<noteq> []" by (simp add: exteriorMultipliers_def)
  from Math_max_spread_between [OF this exteriorMultipliers_between] that show ?thesis
    by (blast elim: between_FinE)
qed

lemma exterior_trim: "get_number SURFACE_MULTIPLIERS_exterior ''trim'' = Fin (2 / 10)"
  by (simp add: get_number_def SURFACE_MULTIPLIERS_exterior_def)

lemma interior_weights:
  "get_number SURFACE_MULTIPLIERS_interior ''walls'' = Fin 1"
  "get_number SURFACE_MULTIPLIERS_interior ''ceilings'' = Fin (4 / 10)"
  "get_number SURFACE_MULTIPLIERS_interior ''trim'' = Fin (3 / 10)"
  by (simp_all add: get_number_def SURFACE_MULTIPLIERS_interior_def)

lemma exterior_surfaceMultiplier_between:
  "js_le (Fin 1) (exterior_surfaceMultiplier (Fin 1) ss)
   \<and> js_le (exterior_surfaceMultiplier (Fin 1) ss) (Fin 2)"
proof (cases "exteriorSurfaces ss = []")
  case True
  then show ?thesis
    by (simp add: exterior_surfaceMultiplier_def exterior_trim double_of_small)
next
  case False
  from exterior_max_between [OF this] obtain b
    where b: "Math_max_spread (exteriorMultipliers ss) = Fin b" "1 \<le> b" "b \<le> 16 / 10"
    by blast
  then have "double_of (b + 2 / 10) = Fin (b + 2 / 10)" by (intro double_of_small) simp_all
  with False b show ?thesis
    by (simp add: exterior_surfaceMultiplier_def Let_def exterior_trim)
qed

lemma both_exteriorMultiplier_between:
  "js_le (Fin 1) (both_exteriorMultiplier ss) \<and> js_le (both_exteriorMultiplier ss) (Fin 2)"
proof (cases "exteriorSurfaces ss = []")
  case True
  then show ?thesis by (simp add: both_exteriorMultiplier_def Let_def)
next
  case False
  from exterior_max_between [OF this] obtain b
    where b: "Math_max_spread (exteriorMultipliers ss) = Fin b" "1 \<le> b" "b \<le> 16 / 10"
    by blast
  then have "double_of (b + 2 / 10) = Fin (b + 2 / 10)" by (intro double_of_small) simp_all
  with False b show ?thesis
    by (simp add: both_exteriorMultiplier_def Let_def exterior_trim)
qed

lemma both_interiorMultiplier_between:
  "js_le (Fin 0) (both_interiorMultiplier ss) \<and> js_le (both_interiorMultiplier ss) (Fin 2)"
  by (simp add: both_interiorMultiplier_def Let_def interior_weights double_of_small)

lemma both_surfaceMultiplier_between:
  "js_le (Fin 1) (both_surfaceMultiplier ss) \<and> js_le (both_surfaceMultiplier ss) (Fin 2)"
proof -
  obtain i where i: "both_interiorMultiplier ss = Fin i" "0 \<le> i" "i \<le> 2"
    using both_interiorMultiplier_between by (blast elim: between_FinE)
  obtain e where e: "both_exteriorMultiplier ss = Fin e" "1 \<le> e" "e \<le> 2"
    using both_exteriorMultiplier_between by (blast elim: between_FinE)
  have "double_of (max i 1 + e) = Fin (max i 1 + e)"
    using i e by (intro double_of_small) (simp_all add: max_def)
  moreover have "1 \<le> (max i 1 + e) / 2" "(max i 1 + e) / 2 \<le> 2"
    using i e by (simp_all add: max_def)
  ultimately show ?thesis
    using i(1) e(1) by (simp add: both_surfaceMultiplier_def js_Fin del: max.bounded_iff)
qed

lemma interior_surfaceMultiplier_between:
  assumes "ss \<noteq> []" and "list_all (\<lambda>s. s \<in> set getInteriorSurfaces) ss"
  shows "js_le (Fin 1) (interior_surfaceMultiplier ss) \<and> js_le (interior_surfaceMultiplier ss) (Fin 2)"
proof -
  from assms(1) obtain x where x: "x \<in> set ss" by (cases ss) auto
  with assms(2) have "x \<in> set getInteriorSurfaces" by (simp add: list_all_iff)
  then have "x = ''walls'' \<or> x = ''ceilings'' \<or> x = ''trim''"
    by (simp add: getInteriorSurfaces_def)
  with x have *: "''walls'' \<in> set ss \<or> ''ceilings'' \<in> set ss \<or> ''trim'' \<in> set ss"
    by blast
  show ?thesis
  proof (cases "''walls'' \<in> set ss")
    case True
    then show ?thesis
      by (simp add: interior_surfaceMultiplier_def Let_def interior_weights double_of_small js_Fin)
  next
    case False
    with * show ?thesis
      by (cases "''ceilings'' \<in> set ss"; cases "''trim'' \<in> set ss")
        (simp_all add: interior_surfaceMultiplier_def Let_def interior_weights double_of_small js_Fin)
  qed
qed

lemma surfaceMultiplier_between:
  assumes "valid_surfaces (projectType fd) (surfaces fd)"
  shows "js_le (Fin 1) (surfaceMultiplier fd) \<and> js_le (surfaceMultiplier fd) (Fin 2)"
proof (cases "surfaces fd = []")
  case True
  then show ?thesis by (simp add: surfaceMultiplier_def)
next
  case False
  from assms consider "projectType fd = ''interior''" | "projectType fd = ''exterior''"
    | "projectType fd = ''both''"
    unfolding valid_surfaces_def by auto
  then show ?thesis
  proof cases
    case 1
    with assms have "list_all (\<lambda>s. s \<in> set getInteriorSurfaces) (surfaces fd)"
      by (simp add: valid_surfaces_def getSurfaceOptions_def)
    from interior_surfaceMultiplier_between [OF False this] 1 False show ?thesis
      by (simp add: surfaceMultiplier_def)
  next
    case 2
    with False exterior_surfaceMultiplier_between [of "surfaces fd"] show ?thesis
      by (simp add: surfaceMultiplier_def)
  next
    case 3
    with False both_surfaceMultiplier_between [of "surfaces fd"] show ?thesis
      by (simp add: surfaceMultiplier_def)
  qed
qed

subsection \<open>The tier and difficulty multipliers and the band\<close>

lemma table_or_number_between:
  assumes "\<forall>(k, v) \<in> set tbl. 1 \<le> v \<and> v \<le> hi" and "1 \<le> hi"
    and "or_number (get_property tbl key) 1 = Fin p"
  shows "1 \<le> p \<and> p \<le> hi"
proof (cases "map_of tbl key")
  case None
  with assms(2,3) show ?thesis
    by (simp add: get_property_def or_number_def split: if_splits)
next
  case (Some v)
  then have "(key, v) \<in> set tbl" by (rule map_of_SomeD)
  with assms(1) have "1 \<le> v \<and> v \<le> hi" by auto
  with Some assms(3) show ?thesis
    by (simp add: get_property_def or_number_def split: if_splits)
qed

lemma paintMultiplier_Fin:
  assumes "paintMultiplier fd = Fin p"
  shows "1 \<le> p \<and> p \<le> 16 / 10"
  by (rule table_or_number_between [of PAINT_MULTIPLIERS "16 / 10" "paintTier fd"])
    (use assms in \<open>simp_all add: PAINT_MULTIPLIERS_def paintMultiplier_def\<close>)

lemma difficultyMultiplier_Fin:
  assumes "difficultyMultiplier fd = Fin d"
  shows "1 \<le> d \<and> d \<le> 25 / 10"
  by (rule table_or_number_between [of DIFFICULTY_MULTIPLIERS "25 / 10" "difficultyLevel fd"])
    (use assms in \<open>simp_all add: DIFFICULTY_MULTIPLIERS_def difficultyMultiplier_def\<close>)

lemma paintMultiplier_valid:
  assumes "paintTier fd \<in> set [''standard'', ''premium'', ''designer'']"
  shows "js_le (Fin 1) (paintMultiplier fd) \<and> js_le (paintMultiplier fd) (Fin (16 / 10))"
proof -
  from assms have "paintTier fd = ''standard'' \<or> paintTier fd = ''premium'' \<or> paintTier fd = ''designer''"
    by simp
  then show ?thesis
    by (elim disjE) (simp_all add: paintMultiplier_def get_property_def or_number_def PAINT_MULTIPLIERS_def)
qed

lemma difficultyMultiplier_valid:
  assumes "difficultyLevel fd \<in> set [''basic'', ''standard'', ''moderate'', ''complex'', ''high_difficulty'']"
  shows "js_le (Fin 1) (difficultyMultiplier fd) \<and> js_le (difficultyMultiplier fd) (Fin (25 / 10))"
proof -
  from assms have "difficultyLevel fd = ''basic'' \<or> difficultyLevel fd = ''standard''
      \<or> difficultyLevel fd = ''moderate'' \<or> difficultyLevel fd = ''complex''
      \<or> difficultyLevel fd = ''high_difficulty''"
    by simp
  then show ?thesis
    by (elim disjE)
      (simp_all add: difficultyMultiplier_def get_property_def or_number_def DIFFICULTY_MULTIPLIERS_def)
qed

lemma js_mul_small:
  assumes "0 \<le> x" and "x \<le> 1000" and "0 \<le> y" and "y \<le> 1000"
  shows "js_mul (Fin x) (Fin y) = Fin (x * y)"
proof -
  have "0 \<le> x * y" using assms(1,3) by simp
  moreover have "x * y \<le> 1000 * 1000" using assms by (intro mult_mono) simp_all
  ultimately have "double_of (x * y) = Fin (x * y)" by (intro double_of_small) simp_all
  then show ?thesis by simp
qed

lemma band_product:
  fixes r p d s :: rat
  assumes "0 \<le> r" and "r \<le> 10" and "1 \<le> p \<and> p \<le> 16 / 10" and "1 \<le> d \<and> d \<le> 25 / 10"
    and "1 \<le> s \<and> s \<le> 2"
  shows "js_mul (js_mul (js_mul (Fin r) (Fin p)) (Fin d)) (Fin s) = Fin (r * (p * d * s))"
proof -
  have 1: "0 \<le> r * p" "r * p \<le> 10 * (16 / 10)"
    using assms by (simp, intro mult_mono, simp_all)
  have 2: "0 \<le> r * p * d" "r * p * d \<le> 16 * (25 / 10)"
    using 1 assms by (simp, intro mult_mono, simp_all)
  have "js_mul (Fin r) (Fin p) = Fin (r * p)" using assms by (intro js_mul_small) simp_all
  moreover have "js_mul (Fin (r * p)) (Fin d) = Fin (r * p * d)"
    using 1 assms by (intro js_mul_small) simp_all
  moreover have "js_mul (Fin (r * p * d)) (Fin s) = Fin (r * p * d * s)"
    using 2 assms by (intro js_mul_small) simp_all
  ultimately show ?thesis by (simp add: mult.assoc)
qed

lemma base_band_Fin:
  assumes "paintMultiplier fd = Fin p" and "difficultyMultiplier fd = Fin d"
    and "surfaceMultiplier fd = Fin s" and "1 \<le> s \<and> s \<le> 2"
  shows "base_band BASE_RATES fd = (Fin (15 / 10 * (p * d * s)), Fin (35 / 10 * (p * d * s)))"
  using band_product [OF _ _ paintMultiplier_Fin [OF assms(1)] difficultyMultiplier_Fin [OF assms(2)] assms(4),
      of "15 / 10"]
    band_product [OF _ _ paintMultiplier_Fin [OF assms(1)] difficultyMultiplier_Fin [OF assms(2)] assms(4),
      of "35 / 10"]
  by (simp add: base_band_def assms(1-3) BASE_RATES_def)

lemma multiplier_product_between:
  fixes p d s :: rat
  assumes "1 \<le> p \<and> p \<le> 16 / 10" and "1 \<le> d \<and> d \<le> 25 / 10" and "1 \<le> s \<and> s \<le> 2"
  shows "1 \<le> p * d * s \<and> p * d * s \<le> 8"
proof -
  have "1 * 1 \<le> p * d" "p * d \<le> 16 / 10 * (25 / 10)" using assms by (intro mult_mono; simp)+
  then have "1 * 1 \<le> p * d * s" "p * d * s \<le> 4 * 2" using assms by (intro mult_mono; simp)+
  then show ?thesis by simp
qed

subsection \<open>The prices and the two floors as closed formulas\<close>

lemma if_NaN_double_of:
  "(if c then NaN else double_of x) = NaN \<or> (\<exists>v. (if c then NaN else double_of x) = double_of v)"
  by auto

lemma parseInt_double: "parseInt s = NaN \<or> (\<exists>v. parseInt s = double_of v)"
  unfolding parseInt_def Let_def by (rule if_NaN_double_of)

lemma parseInt_Nil: "parseInt [] = NaN"
  by (simp add: parseInt_def)

lemma double_of_threshold: "double_of overflow_threshold = PosInf"
  by (simp add: double_of_def)

lemma valid_squareFootage_repr:
  assumes "valid_squareFootage s"
  obtains v where "parseInt s = double_of v" and "100 \<le> v" and "v \<le> overflow_threshold"
proof -
  from assms have ge: "js_le (Fin 100) (parseInt s)"
    by (simp add: valid_squareFootage_def js_ge_def)
  with parseInt_double [of s] obtain w where w: "parseInt s = double_of w" by auto
  show ?thesis
  proof (cases "overflow_threshold \<le> w")
    case True
    with w have "parseInt s = double_of overflow_threshold"
      by (simp add: double_of_def)
    with that [of overflow_threshold] overflow_threshold_large show ?thesis by simp
  next
    case False
    with ge w have "parseInt s = Fin w" "100 \<le> w"
      by (auto simp: double_of_def split: if_splits)
    with that [of w] w False show ?thesis by simp
  qed
qed

lemma js_mul_double_of:
  assumes "0 \<le> v" and "1 \<le> c"
  shows "js_mul (double_of v) (Fin c) = double_of (v * c)"
proof (cases "overflow_threshold \<le> v")
  case True
  have "v * 1 \<le> v * c" using assms by (intro mult_left_mono) simp_all
  with True have "overflow_threshold \<le> v * c" by simp
  with True assms show ?thesis by (simp add: double_of_def)
next
  case False
  with assms(1) have "double_of v = Fin v" by (simp add: double_of_nonneg)
  then show ?thesis by simp
qed

lemma floors_double_of:
  assumes "0 \<le> a" and "0 \<le> b"
  shows "absolute_floor (spread_floor (double_of a, double_of b)) =
     (double_of (max a 3000), double_of (max (max b (a + 3000)) 6000))"
proof -
  note defs = double_of_def spread_floor_def absolute_floor_def js_sub_def rangeSpread_def
    absoluteMin_def Math_max_def max_def
  consider (inf_a) "overflow_threshold \<le> a"
    | (inf_b) "a < overflow_threshold" "overflow_threshold \<le> b"
    | (fin) "a < overflow_threshold" "b < overflow_threshold"
    by linarith
  then show ?thesis
  proof cases
    case inf_a
    with assms overflow_threshold_large show ?thesis by (auto simp: defs)
  next
    case inf_b
    with assms overflow_threshold_large show ?thesis by (auto simp: defs)
  next
    case fin
    with assms overflow_threshold_large show ?thesis by (auto simp: defs)
  qed
qed

lemma estimate_with_double_of:
  assumes "raw_prices r fd = (double_of a, double_of b)" and "0 \<le> a" and "0 \<le> b"
  shows "min_price (estimate_with r fd) = Math_round (double_of (max a 3000))"
    and "max_price (estimate_with r fd) = Math_round (double_of (max (max b (a + 3000)) 6000))"
  by (simp_all add: estimate_with_def assms(1) floors_double_of [OF assms(2,3)] del: max.bounded_iff)

lemma Math_round_double_of:
  assumes "0 \<le> x"
  shows "Math_round (double_of x)
     = (if overflow_threshold \<le> x then PosInf else Fin (of_int \<lfloor>x + 1 / 2\<rfloor>))"
  using assms by (simp add: double_of_nonneg)

lemma Math_round_double_of_mono:
  assumes "0 \<le> x" and "x \<le> y"
  shows "js_le (Math_round (double_of x)) (Math_round (double_of y))"
proof -
  from assms have "0 \<le> y" by simp
  moreover have "\<lfloor>x + 1 / 2\<rfloor> \<le> \<lfloor>y + 1 / 2\<rfloor>" using assms(2) by (intro floor_mono) simp
  ultimately show ?thesis using assms by (simp add: Math_round_double_of)
qed

subsection \<open>Valid inputs\<close>

lemma raw_prices_double_of:
  assumes "paintMultiplier fd = Fin p" and "difficultyMultiplier fd = Fin d"
    and "surfaceMultiplier fd = Fin s" and "1 \<le> s \<and> s \<le> 2"
    and "parseInt (squareFootage fd) = double_of v" and "0 \<le> v"
  shows "raw_prices BASE_RATES fd
     = (double_of (v * (15 / 10 * (p * d * s))), double_of (v * (35 / 10 * (p * d * s))))"
proof -
  from multiplier_product_between [OF paintMultiplier_Fin [OF assms(1)]
      difficultyMultiplier_Fin [OF assms(2)] assms(4)]
  have "1 \<le> 15 / 10 * (p * d * s)" "1 \<le> 35 / 10 * (p * d * s)" by simp_all
  then show ?thesis
    by (simp add: raw_prices_def Let_def base_band_Fin [OF assms(1-4)] assms(5)
        js_mul_double_of [OF assms(6)])
qed

lemma valid_input_numbers:
  assumes "valid_input fd"
  obtains p d s v where "paintMultiplier fd = Fin p" and "1 \<le> p \<and> p \<le> 16 / 10"
    and "difficultyMultiplier fd = Fin d" and "1 \<le> d \<and> d \<le> 25 / 10"
    and "surfaceMultiplier fd = Fin s" and "1 \<le> s \<and> s \<le> 2"
    and "parseInt (squareFootage fd) = double_of v" and "100 \<le> v" and "v \<le> overflow_threshold"
proof -
  from assms have tier: "paintTier fd \<in> set [''standard'', ''premium'', ''designer'']"
    and level: "difficultyLevel fd
      \<in> set [''basic'', ''standard'', ''moderate'', ''complex'', ''high_difficulty'']"
    and surf: "valid_surfaces (projectType fd) (surfaces fd)"
    unfolding valid_input_def by blast+
  from paintMultiplier_valid [OF tier]
  obtain p where p: "paintMultiplier fd = Fin p" "1 \<le> p \<and> p \<le> 16 / 10"
    by (blast elim: between_FinE)
  from difficultyMultiplier_valid [OF level]
  obtain d where d: "difficultyMultiplier fd = Fin d" "1 \<le> d \<and> d \<le> 25 / 10"
    by (blast elim: between_FinE)
  from surfaceMultiplier_between [OF surf]
  obtain s where s: "surfaceMultiplier fd = Fin s" "1 \<le> s \<and> s \<le> 2"
    by (blast elim: between_FinE)
  from assms have "valid_squareFootage (squareFootage fd)" unfolding valid_input_def by blast
  then obtain v where v: "parseInt (squareFootage fd) = double_of v" "100 \<le> v"
    "v \<le> overflow_threshold"
    by (rule valid_squareFootage_repr)
  from that [OF p d s v] show ?thesis .
qed

lemma valid_input_raw_prices:
  assumes "valid_input fd"
  obtains a b where "raw_prices BASE_RATES fd = (double_of a, double_of b)" and "0 \<le> a" and "0 \<le> b"
proof -
  from assms obtain p d s v
    where p: "paintMultiplier fd = Fin p" "1 \<le> p \<and> p \<le> 16 / 10"
      and d: "difficultyMultiplier fd = Fin d" "1 \<le> d \<and> d \<le> 25 / 10"
      and s: "surfaceMultiplier fd = Fin s" "1 \<le> s \<and> s \<le> 2"
      and v: "parseInt (squareFootage fd) = double_of v" "100 \<le> v" "v \<le> overflow_threshold"
    by (rule valid_input_numbers)
  from v(2) have v0: "0 \<le> v" by simp
  from multiplier_product_between [OF p(2) d(2) s(2)] have "0 \<le> p * d * s" by simp
  then have k: "0 \<le> 15 / 10 * (p * d * s)" "0 \<le> 35 / 10 * (p * d * s)" by simp_all
  show ?thesis
  proof (rule that)
    show "raw_prices BASE_RATES fd
        = (double_of (v * (15 / 10 * (p * d * s))), double_of (v * (35 / 10 * (p * d * s))))"
      by (rule raw_prices_double_of [OF p(1) d(1) s(1) s(2) v(1) v0])
    show "0 \<le> v * (15 / 10 * (p * d * s))" using v0 k(1) by (rule mult_nonneg_nonneg)
    show "0 \<le> v * (35 / 10 * (p * d * s))" using v0 k(2) by (rule mult_nonneg_nonneg)
  qed
qed

lemma valid_input_complete:
  assumes "valid_input fd"
  shows "projectType fd \<noteq> [] \<and> squareFootage fd \<noteq> [] \<and> paintTier fd \<noteq> []"
proof -
  from assms have sq: "valid_squareFootage (squareFootage fd)"
    and tier: "paintTier fd \<in> set [''standard'', ''premium'', ''designer'']"
    and surf: "valid_surfaces (projectType fd) (surfaces fd)"
    unfolding valid_input_def by blast+
  from sq have "squareFootage fd \<noteq> []"
    by (auto simp: valid_squareFootage_def js_ge_def parseInt_Nil)
  moreover from tier have "paintTier fd \<noteq> []" by auto
  moreover from surf have "projectType fd \<noteq> []" by (auto simp: valid_surfaces_def)
  ultimately show ?thesis by simp
qed

lemma calculateEstimate_valid:
  assumes "valid_input (formData st)"
  shows "calculateEstimate st = st\<lparr>estimate := Some (estimate_with BASE_RATES (formData st))\<rparr>"
  using valid_input_complete [OF assms] by (simp add: calculateEstimate_def calculateEstimate_with_def)

lemma multipliers_squareFootage:
  "paintMultiplier (fd\<lparr>squareFootage := s'\<rparr>) = paintMultiplier fd"
  "difficultyMultiplier (fd\<lparr>squareFootage := s'\<rparr>) = difficultyMultiplier fd"
  "surfaceMultiplier (fd\<lparr>squareFootage := s'\<rparr>) = surfaceMultiplier fd"
  by (simp_all add: paintMultiplier_def difficultyMultiplier_def surfaceMultiplier_def)

lemma multipliers_paintTier:
  "difficultyMultiplier (fd\<lparr>paintTier := t\<rparr>) = difficultyMultiplier fd"
  "surfaceMultiplier (fd\<lparr>paintTier := t\<rparr>) = surfaceMultiplier fd"
  "paintMultiplier (fd\<lparr>paintTier := ''standard''\<rparr>) = Fin 1"
  "paintMultiplier (fd\<lparr>paintTier := ''premium''\<rparr>) = Fin (13 / 10)"
  "paintMultiplier (fd\<lparr>paintTier := ''designer''\<rparr>) = Fin (16 / 10)"
  by (simp_all add: paintMultiplier_def difficultyMultiplier_def surfaceMultiplier_def
      get_property_def or_number_def PAINT_MULTIPLIERS_def)

lemma valid_input_paintTier:
  assumes "valid_input fd" and "t \<in> set [''standard'', ''premium'', ''designer'']"
  shows "valid_input (fd\<lparr>paintTier := t\<rparr>)"
  using assms by (simp add: valid_input_def)

lemma formData_handleTierSelect:
  "formData (handleTierSelect t st) = (formData st)\<lparr>paintTier := t\<rparr>"
  by (simp add: handleTierSelect_def)

lemma calculateEstimate_tier:
  assumes "valid_input (formData st)" and "t \<in> set [''standard'', ''premium'', ''designer'']"
  shows "estimate (calculateEstimate (handleTierSelect t st))
           = Some (estimate_with BASE_RATES ((formData st)\<lparr>paintTier := t\<rparr>))"
proof -
  from valid_input_paintTier [OF assms] have "valid_input (formData (handleTierSelect t st))"
    by (simp add: handleTierSelect_def)
  from calculateEstimate_valid [OF this] show ?thesis by (simp add: handleTierSelect_def)
qed

lemma js_le_trans: "js_le a b \<Longrightarrow> js_le b c \<Longrightarrow> js_le a c"
  by (cases a; cases b; cases c) simp_all

lemma double_of_le_D:
  assumes "js_le (double_of v) (double_of w)" and "0 \<le> v" and "v \<le> overflow_threshold"
    and "0 \<le> w" and "w \<le> overflow_threshold"
  shows "v \<le> w"
  using assms by (auto simp: double_of_nonneg split: if_splits)

subsection \<open>Reading a square footage\<close>

lemma digits_value_zeros:
  "digits_value 10 (ds @ replicate k (CHR ''0'')) = digits_value 10 ds * 10 ^ k"
proof (induction k)
  case 0
  then show ?case by simp
next
  case (Suc k)
  have "ds @ replicate (Suc k) (CHR ''0'') = (ds @ replicate k (CHR ''0'')) @ [CHR ''0'']"
    by (simp add: replicate_append_same)
  then have "digits_value 10 (ds @ replicate (Suc k) (CHR ''0''))
      = digits_value 10 (ds @ replicate k (CHR ''0'')) * 10"
    by (simp only: digits_value_def foldl_append) (simp add: digit_value_def)
  with Suc show ?case by simp
qed

lemma parseInt_decimal:
  assumes "ds \<noteq> []"
    and "\<forall>c \<in> set ds. is_digit 10 c \<and> \<not> is_white_space c \<and> c \<noteq> CHR ''+'' \<and> c \<noteq> CHR ''-''
           \<and> c \<noteq> CHR ''x'' \<and> c \<noteq> CHR ''X''"
  shows "parseInt ds = double_of (of_nat (digits_value 10 ds))"
proof -
  from assms(1) obtain c cs where ds: "ds = c # cs" by (cases ds) auto
  with assms(2) have c: "\<not> is_white_space c" "c \<noteq> CHR ''+''" "c \<noteq> CHR ''-''" by simp_all
  then have drop: "dropWhile is_white_space ds = ds" by (simp add: ds)
  have nohex: "take 2 ds \<noteq> ''0x''" "take 2 ds \<noteq> ''0X''"
  proof -
    show "take 2 ds \<noteq> ''0x''"
    proof
      assume "take 2 ds = ''0x''"
      then have "CHR ''x'' \<in> set (take 2 ds)" by simp
      then have "CHR ''x'' \<in> set ds" by (rule in_set_takeD)
      with assms(2) show False by blast
    qed
    show "take 2 ds \<noteq> ''0X''"
    proof
      assume "take 2 ds = ''0X''"
      then have "CHR ''X'' \<in> set (take 2 ds)" by simp
      then have "CHR ''X'' \<in> set ds" by (rule in_set_takeD)
      with assms(2) show False by blast
    qed
  qed
  from assms(2) have all: "takeWhile (is_digit 10) ds = ds"
    by (simp add: takeWhile_eq_all_conv)
  from c ds have hd: "hd ds \<noteq> CHR ''+''" "hd ds \<noteq> CHR ''-''" by simp_all
  show ?thesis
    unfolding parseInt_def Let_def drop
    by (simp add: hd nohex all assms(1))
qed

lemma digit_chars:
  "is_digit 10 (CHR ''0'') \<and> \<not> is_white_space (CHR ''0'')"
  "is_digit 10 (CHR ''1'') \<and> \<not> is_white_space (CHR ''1'')"
  "is_digit 10 (CHR ''2'') \<and> \<not> is_white_space (CHR ''2'')"
  "is_digit 10 (CHR ''5'') \<and> \<not> is_white_space (CHR ''5'')"
  "is_digit 10 (CHR ''9'') \<and> \<not> is_white_space (CHR ''9'')"
  by (simp_all add: is_digit_def digit_value_def is_white_space_def)

lemma parseInt_scenarios:
  "parseInt ''1000'' = Fin 1000" "parseInt ''2000'' = Fin 2000" "parseInt ''1500'' = Fin 1500"
  "parseInt ''1099'' = Fin 1099"
  by (simp_all add: parseInt_decimal digit_chars digits_value_def digit_value_def double_of_small)


lemma parseInt_overflow_tiers:
  "parseInt (''15'' @ replicate 307 (CHR ''0'')) = Fin (15 * 10 ^ 307)"
proof -
  have "parseInt (''15'' @ replicate 307 (CHR ''0''))
      = double_of (of_nat (digits_value 10 (''15'' @ replicate 307 (CHR ''0''))))"
    by (rule parseInt_decimal) (simp_all add: digit_chars)
  also have "digits_value 10 (''15'' @ replicate 307 (CHR ''0'')) = 15 * 10 ^ 307"
    by (simp only: digits_value_zeros) (simp add: digits_value_def digit_value_def)
  also have "double_of (of_nat (15 * 10 ^ 307)) = Fin (15 * 10 ^ 307)"
    using overflow_threshold_bounds(2) by (simp add: double_of_def)
  finally show ?thesis .
qed

subsection \<open>Evaluating the scenarios\<close>

lemma valid_scenario_A: "valid_input scenario_A"
  by (simp add: valid_input_def valid_surfaces_def valid_squareFootage_def scenario_A_def
      initial_formData_def getSurfaceOptions_def getInteriorSurfaces_def parseInt_scenarios js_Fin)

lemma valid_scenario_B: "valid_input scenario_B"
  by (simp add: valid_input_def valid_surfaces_def valid_squareFootage_def scenario_B_def
      initial_formData_def getSurfaceOptions_def getExteriorSurfaces_def parseInt_scenarios js_Fin)


lemma overflow_tiers_fields:
  "squareFootage overflow_tiers = ''15'' @ replicate 307 (CHR ''0'')"
  "projectType overflow_tiers = ''interior''" "surfaces overflow_tiers = [''walls'']"
  "paintTier overflow_tiers = ''standard''" "difficultyLevel overflow_tiers = ''basic''"
  by (simp_all add: overflow_tiers_def initial_formData_def)


lemma valid_overflow_tiers: "valid_input overflow_tiers"
  unfolding valid_input_def valid_squareFootage_def overflow_tiers_fields parseInt_overflow_tiers
  by (simp add: valid_surfaces_def getSurfaceOptions_def getInteriorSurfaces_def js_Fin)

lemmas eval_defs =
  raw_prices_def base_band_def Let_def paintMultiplier_def difficultyMultiplier_def
  surfaceMultiplier_def interior_surfaceMultiplier_def exterior_surfaceMultiplier_def
  both_surfaceMultiplier_def both_interiorMultiplier_def both_exteriorMultiplier_def
  exteriorSurfaces_def exteriorMultipliers_def interiorSurfaces_def Math_max_spread_def
  get_property_def get_number_def or_number_def Object_prototype_keys_def
  PAINT_MULTIPLIERS_def DIFFICULTY_MULTIPLIERS_def SURFACE_MULTIPLIERS_interior_def
  SURFACE_MULTIPLIERS_exterior_def BASE_RATES_def BASE_RATES_part_000_def
  spread_floor_def absolute_floor_def absoluteMin_def rangeSpread_def
  estimate_with_def tierNames_def js_Fin Math_max_def double_of_small parseInt_scenarios
  floor_eq_iff initial_formData_def

lemma raw_prices_scenario_B_standard:
  "raw_prices BASE_RATES (scenario_B\<lparr>paintTier := ''standard''\<rparr>) = (Fin 6480, Fin 15120)"
  by (simp add: scenario_B_def eval_defs)

lemma raw_prices_scenario_B_premium:
  "raw_prices BASE_RATES (scenario_B\<lparr>paintTier := ''premium''\<rparr>) = (Fin 8424, Fin 19656)"
  by (simp add: scenario_B_def eval_defs)


lemma tier_tie_after_rounding:
  "raw_prices BASE_RATES (tie_example\<lparr>paintTier := ''standard''\<rparr>) = (Fin (23079 / 10), Fin (53851 / 10))"
  "raw_prices BASE_RATES (tie_example\<lparr>paintTier := ''premium''\<rparr>) = (Fin (300027 / 100), Fin (700063 / 100))"
  "min_price (estimate_with BASE_RATES (tie_example\<lparr>paintTier := ''standard''\<rparr>)) = Fin 3000"
  "min_price (estimate_with BASE_RATES (tie_example\<lparr>paintTier := ''premium''\<rparr>)) = Fin 3000"
  by (simp_all add: tie_example_def eval_defs)

lemma part_000_scenarios:
  "raw_prices BASE_RATES_part_000 scenario_B = (Fin 9828, Fin 16848)"
  "estimate (calculateEstimate_part_000 \<lparr>formData = scenario_B, estimate = e\<rparr>)
     = Some \<lparr>min_price = Fin 9828, max_price = Fin 16848, tierName = Own ''Premium Paint''\<rparr>"
  "raw_prices BASE_RATES_part_000 scenario_A = (Fin 1750, Fin 3000)"
  "spread_floor (Fin 1750, Fin 3000) = (Fin 1750, Fin 4750)"
  "estimate (calculateEstimate_part_000 \<lparr>formData = scenario_A, estimate = e\<rparr>)
     = Some \<lparr>min_price = Fin 3000, max_price = Fin 6000, tierName = Own ''Standard Paint''\<rparr>"
  by (simp_all add: scenario_A_def scenario_B_def calculateEstimate_part_000_def
      calculateEstimate_with_def eval_defs)


subsection \<open>Rounding to the nearest integer\<close>

lemma round_mono: "x \<le> y \<Longrightarrow> \<lfloor>x + 1 / 2\<rfloor> \<le> \<lfloor>y + 1 / (2::rat)\<rfloor>"
  by (rule floor_mono) simp

lemma round_shift: "\<lfloor>x + of_int z + 1 / 2\<rfloor> = \<lfloor>x + 1 / (2::rat)\<rfloor> + z"
proof -
  have "x + of_int z + 1 / 2 = (x + 1 / 2) + of_int z" by simp
  then show ?thesis by (simp only: floor_add_int)
qed

lemma round_gap:
  assumes "x + of_int z \<le> (y::rat)"
  shows "\<lfloor>x + 1 / 2\<rfloor> + z \<le> \<lfloor>y + 1 / 2\<rfloor>"
  using round_mono [OF assms] by (simp only: round_shift)


subsection \<open>Changing the square footage of a valid input\<close>

lemma valid_input_squareFootage:
  assumes "valid_input fd" and "valid_squareFootage s'"
  shows "valid_input (fd\<lparr>squareFootage := s'\<rparr>)"
  using assms by (simp add: valid_input_def)

subsection \<open>Tiers past the range of a double\<close>

lemma overflow_tiers_results:
  "raw_prices BASE_RATES (overflow_tiers\<lparr>paintTier := ''standard''\<rparr>) = (PosInf, PosInf)"
  "min_price (estimate_with BASE_RATES (overflow_tiers\<lparr>paintTier := ''standard''\<rparr>)) = PosInf"
  "min_price (estimate_with BASE_RATES (overflow_tiers\<lparr>paintTier := ''premium''\<rparr>)) = PosInf"
  "min_price (estimate_with BASE_RATES (overflow_tiers\<lparr>paintTier := ''designer''\<rparr>)) = PosInf"
proof -
  have sq: "parseInt (squareFootage (overflow_tiers\<lparr>paintTier := t\<rparr>)) = Fin (15 * 10 ^ 307)" for t
    using parseInt_overflow_tiers by (simp add: overflow_tiers_fields)
  have band: "base_band BASE_RATES (overflow_tiers\<lparr>paintTier := ''standard''\<rparr>) = (Fin (15 / 10), Fin (35 / 10))"
    "base_band BASE_RATES (overflow_tiers\<lparr>paintTier := ''premium''\<rparr>) = (Fin (195 / 100), Fin (455 / 100))"
    "base_band BASE_RATES (overflow_tiers\<lparr>paintTier := ''designer''\<rparr>) = (Fin (24 / 10), Fin (56 / 10))"
    by (simp_all add: overflow_tiers_def eval_defs)
  have raw: "raw_prices BASE_RATES (overflow_tiers\<lparr>paintTier := ''standard''\<rparr>) = (PosInf, PosInf)"
    "raw_prices BASE_RATES (overflow_tiers\<lparr>paintTier := ''premium''\<rparr>) = (PosInf, PosInf)"
    "raw_prices BASE_RATES (overflow_tiers\<lparr>paintTier := ''designer''\<rparr>) = (PosInf, PosInf)"
    unfolding raw_prices_def Let_def band sq
    by (simp_all add: double_of_def overflow_threshold_def)
  show "raw_prices BASE_RATES (overflow_tiers\<lparr>paintTier := ''standard''\<rparr>) = (PosInf, PosInf)"
    by (rule raw(1))
  show "min_price (estimate_with BASE_RATES (overflow_tiers\<lparr>paintTier := ''standard''\<rparr>)) = PosInf"
    "min_price (estimate_with BASE_RATES (overflow_tiers\<lparr>paintTier := ''premium''\<rparr>)) = PosInf"
    "min_price (estimate_with BASE_RATES (overflow_tiers\<lparr>paintTier := ''designer''\<rparr>)) = PosInf"
    unfolding estimate_with_def Let_def raw
    by (simp_all add: spread_floor_def absolute_floor_def js_sub_def)
qed

subsection \<open>Trim in a combined project, and keys outside the tables\<close>

lemma filter_removeAll_other: "\<not> P x \<Longrightarrow> filter P (removeAll x ss) = filter P ss"
  by (induction ss) auto

lemma exteriorSurfaces_removeAll_trim:
  "exteriorSurfaces (removeAll ''trim'' ss) = exteriorSurfaces ss"
  unfolding exteriorSurfaces_def by (rule filter_removeAll_other) simp

lemma exteriorMultipliers_removeAll_trim:
  "exteriorMultipliers (removeAll ''trim'' ss) = exteriorMultipliers ss"
  by (simp add: exteriorMultipliers_def exteriorSurfaces_removeAll_trim)

lemma both_exteriorMultiplier_removeAll_trim:
  "both_exteriorMultiplier (removeAll ''trim'' ss)
     = (if exteriorSurfaces ss \<noteq> [] then Math_max_spread (exteriorMultipliers ss) else Fin 1)"
  by (simp add: both_exteriorMultiplier_def Let_def exteriorSurfaces_removeAll_trim
      exteriorMultipliers_removeAll_trim)

lemma unknown_key_is_noop:
  assumes "paintTier fd \<notin> set (map fst PAINT_MULTIPLIERS)" and "paintTier fd \<notin> set Object_prototype_keys"
  shows "paintMultiplier fd = Fin 1"
    and "base_band r fd
      = (js_mul (js_mul (js_mul (Fin (min_rate r)) (Fin 1)) (difficultyMultiplier fd)) (surfaceMultiplier fd),
         js_mul (js_mul (js_mul (Fin (max_rate r)) (Fin 1)) (difficultyMultiplier fd)) (surfaceMultiplier fd))"
proof -
  from assms(1) have "map_of PAINT_MULTIPLIERS (paintTier fd) = None"
    by (simp only: map_of_eq_None_iff set_map not_False_eq_True)
  with assms(2) show pm: "paintMultiplier fd = Fin 1"
    by (simp add: paintMultiplier_def get_property_def or_number_def)
  show "base_band r fd
      = (js_mul (js_mul (js_mul (Fin (min_rate r)) (Fin 1)) (difficultyMultiplier fd)) (surfaceMultiplier fd),
         js_mul (js_mul (js_mul (Fin (max_rate r)) (Fin 1)) (difficultyMultiplier fd)) (surfaceMultiplier fd))"
    by (simp only: base_band_def pm Let_def)
qed

lemma unknown_difficulty_is_noop:
  assumes "difficultyLevel fd \<notin> set (map fst DIFFICULTY_MULTIPLIERS)"
    and "difficultyLevel fd \<notin> set Object_prototype_keys"
  shows "difficultyMultiplier fd = Fin 1"
proof -
  from assms(1) have "map_of DIFFICULTY_MULTIPLIERS (difficultyLevel fd) = None"
    by (simp only: map_of_eq_None_iff set_map not_False_eq_True)
  with assms(2) show ?thesis
    by (simp add: difficultyMultiplier_def get_property_def or_number_def)
qed

subsection \<open>Prices of a realistic size are finite\<close>

lemma overflow_threshold_realistic: "1000000000 * 28 + 3000 < overflow_threshold"
  using overflow_threshold_large by simp

lemma prices_finite_below:
  assumes "valid_input fd" and "js_le (parseInt (squareFootage fd)) (Fin (1000000000))"
  shows "\<exists>lo hi. min_price (estimate_with BASE_RATES fd) = Fin (of_int lo)
           \<and> max_price (estimate_with BASE_RATES fd) = Fin (of_int hi)"
proof -
  from assms(1) obtain p d s v
    where p: "paintMultiplier fd = Fin p" "1 \<le> p \<and> p \<le> 16 / 10"
      and d: "difficultyMultiplier fd = Fin d" "1 \<le> d \<and> d \<le> 25 / 10"
      and s: "surfaceMultiplier fd = Fin s" "1 \<le> s \<and> s \<le> 2"
      and v: "parseInt (squareFootage fd) = double_of v" "100 \<le> v" "v \<le> overflow_threshold"
    by (rule valid_input_numbers)
  from v(2) have v0: "0 \<le> v" by simp
  from assms(2) v0 have v_le: "v \<le> 1000000000"
    by (simp add: v(1) double_of_nonneg split: if_splits)
  define k where "k = p * d * s"
  from multiplier_product_between [OF p(2) d(2) s(2)] have k: "1 \<le> k" "k \<le> 8"
    by (simp_all add: k_def)
  define a where "a = v * (15 / 10 * k)"
  define b where "b = v * (35 / 10 * k)"
  have raw: "raw_prices BASE_RATES fd = (double_of a, double_of b)"
    unfolding a_def b_def k_def by (rule raw_prices_double_of [OF p(1) d(1) s(1) s(2) v(1) v0])
  have ab0: "0 \<le> a" "0 \<le> b" using v0 k by (simp_all add: a_def b_def)
  have vk: "v * k \<le> 1000000000 * 8" using v0 v_le k by (intro mult_mono) simp_all
  have "a = 15 / 10 * (v * k)" "b = 35 / 10 * (v * k)" by (simp_all add: a_def b_def)
  with vk have ab: "a \<le> 1000000000 * 28" "b \<le> 1000000000 * 28" by linarith+
  have m: "0 \<le> max a 3000" "max a 3000 < overflow_threshold"
    using ab overflow_threshold_realistic by (simp_all add: max_def)
  have M: "0 \<le> max (max b (a + 3000)) 6000" "max (max b (a + 3000)) 6000 < overflow_threshold"
    using ab overflow_threshold_realistic by (simp_all add: max_def)
  from m(2) have nm: "\<not> overflow_threshold \<le> max a 3000" by (simp only: not_le)
  from M(2) have nM: "\<not> overflow_threshold \<le> max (max b (a + 3000)) 6000" by (simp only: not_le)
  have "min_price (estimate_with BASE_RATES fd) = Fin (of_int \<lfloor>max a 3000 + 1 / 2\<rfloor>)"
    by (simp only: estimate_with_double_of [OF raw ab0] Math_round_double_of [OF m(1)] nm if_False)
  moreover
  have "max_price (estimate_with BASE_RATES fd) = Fin (of_int \<lfloor>max (max b (a + 3000)) 6000 + 1 / 2\<rfloor>)"
    by (simp only: estimate_with_double_of [OF raw ab0] Math_round_double_of [OF M(1)] nM if_False)
  ultimately show ?thesis by blast
qed

section \<open>The surface multiplier never lowers the band\<close>

text \<open>
  C10. For a known project type and surfaces that the form offers for it, the surface
  multiplier is a finite number and at least 1, so that both ends of the band are at
  least the base rate times the tier and difficulty multipliers. Interior \<open>{ceilings}\<close>
  gives 1.2 and interior \<open>{trim}\<close> gives 1.1 through the 0.8 minimum base; exterior
  \<open>{trim}\<close> gives 1.2.
\<close>

theorem surface_multiplier_at_least_one:
  assumes "valid_surfaces (projectType fd) (surfaces fd)"
  shows "(\<exists>s. surfaceMultiplier fd = Fin s \<and> 1 \<le> s
           \<and> (\<forall>p d. paintMultiplier fd = Fin p \<and> difficultyMultiplier fd = Fin d \<and> 0 \<le> p * d
                \<longrightarrow> (\<exists>lo hi. base_band BASE_RATES fd = (Fin lo, Fin hi)
                      \<and> min_rate BASE_RATES * p * d \<le> lo \<and> max_rate BASE_RATES * p * d \<le> hi)))
         \<and> surfaceMultiplier (initial_formData\<lparr>projectType := ''interior'', surfaces := [''ceilings'']\<rparr>)
             = Fin (12 / 10)
         \<and> surfaceMultiplier (initial_formData\<lparr>projectType := ''interior'', surfaces := [''trim'']\<rparr>)
             = Fin (11 / 10)
         \<and> surfaceMultiplier (initial_formData\<lparr>projectType := ''exterior'', surfaces := [''trim'']\<rparr>)
             = Fin (12 / 10)"
proof -
  from surfaceMultiplier_between [OF assms]
  obtain s where s: "surfaceMultiplier fd = Fin s" "1 \<le> s" "s \<le> 2"
    by (blast elim: between_FinE)
  have "\<exists>lo hi. base_band BASE_RATES fd = (Fin lo, Fin hi)
          \<and> min_rate BASE_RATES * p * d \<le> lo \<and> max_rate BASE_RATES * p * d \<le> hi"
    if pd: "paintMultiplier fd = Fin p \<and> difficultyMultiplier fd = Fin d \<and> 0 \<le> p * d" for p d
  proof -
    from pd s have band: "base_band BASE_RATES fd =
        (Fin (15 / 10 * (p * d * s)), Fin (35 / 10 * (p * d * s)))"
      by (intro base_band_Fin) simp_all
    have "(0::rat) \<le> 15 / 10 * (p * d)" "(0::rat) \<le> 35 / 10 * (p * d)" using pd by simp_all
    then have "15 / 10 * (p * d) * 1 \<le> 15 / 10 * (p * d) * s"
      "35 / 10 * (p * d) * 1 \<le> 35 / 10 * (p * d) * s"
      using s(2) by (simp_all only: mult_left_mono)
    then have "15 / 10 * p * d \<le> 15 / 10 * (p * d * s)" "35 / 10 * p * d \<le> 35 / 10 * (p * d * s)"
      by (simp_all only: mult.assoc mult_1_right)
    with band show ?thesis by (simp only: BASE_RATES_def rates.simps) blast
  qed
  with s have general: "\<exists>s. surfaceMultiplier fd = Fin s \<and> 1 \<le> s
           \<and> (\<forall>p d. paintMultiplier fd = Fin p \<and> difficultyMultiplier fd = Fin d \<and> 0 \<le> p * d
                \<longrightarrow> (\<exists>lo hi. base_band BASE_RATES fd = (Fin lo, Fin hi)
                      \<and> min_rate BASE_RATES * p * d \<le> lo \<and> max_rate BASE_RATES * p * d \<le> hi))"
    by blast
  have ceilings: "surfaceMultiplier
      (initial_formData\<lparr>projectType := ''interior'', surfaces := [''ceilings'']\<rparr>) = Fin (12 / 10)"
    by (simp add: eval_defs)
  have trim: "surfaceMultiplier
      (initial_formData\<lparr>projectType := ''interior'', surfaces := [''trim'']\<rparr>) = Fin (11 / 10)"
    by (simp add: eval_defs)
  have ext_trim: "surfaceMultiplier
      (initial_formData\<lparr>projectType := ''exterior'', surfaces := [''trim'']\<rparr>) = Fin (12 / 10)"
    by (simp add: eval_defs)
  from general ceilings trim ext_trim show ?thesis by (intro conjI)
qed

theorem surface_multiplier_at_least_one_witness:
  "valid_surfaces (projectType scenario_B) (surfaces scenario_B)
   \<and> paintMultiplier scenario_B = Fin (13 / 10) \<and> difficultyMultiplier scenario_B = Fin (12 / 10)
   \<and> (\<exists>s. surfaceMultiplier scenario_B = Fin s \<and> 1 \<le> s)
   \<and> (\<exists>lo hi. base_band BASE_RATES scenario_B = (Fin lo, Fin hi)
          \<and> min_rate BASE_RATES * (13 / 10) * (12 / 10) \<le> lo
          \<and> max_rate BASE_RATES * (13 / 10) * (12 / 10) \<le> hi)"
proof -
  have h: "valid_surfaces (projectType scenario_B) (surfaces scenario_B)"
    by (simp add: valid_surfaces_def scenario_B_def initial_formData_def getSurfaceOptions_def
        getExteriorSurfaces_def)
  have p: "paintMultiplier scenario_B = Fin (13 / 10)"
    by (simp add: scenario_B_def initial_formData_def paintMultiplier_def get_property_def
        or_number_def PAINT_MULTIPLIERS_def)
  have d: "difficultyMultiplier scenario_B = Fin (12 / 10)"
    by (simp add: scenario_B_def initial_formData_def difficultyMultiplier_def get_property_def
        or_number_def DIFFICULTY_MULTIPLIERS_def)
  have pd: "(0::rat) \<le> 13 / 10 * (12 / 10)" by simp
  from surface_multiplier_at_least_one [OF h] p d pd
  have "(\<exists>s. surfaceMultiplier scenario_B = Fin s \<and> 1 \<le> s)
   \<and> (\<exists>lo hi. base_band BASE_RATES scenario_B = (Fin lo, Fin hi)
          \<and> min_rate BASE_RATES * (13 / 10) * (12 / 10) \<le> lo
          \<and> max_rate BASE_RATES * (13 / 10) * (12 / 10) \<le> hi)"
    by blast
  with h p d show ?thesis by (intro conjI) blast+
qed

section \<open>Incomplete forms\<close>

text \<open>
  C9. When the project type, the square footage or the paint tier is empty,
  \<open>calculateEstimate\<close> returns at once: no estimate is computed or stored, and the
  state, with the estimate it held before, is unchanged.
\<close>

theorem incomplete_form_keeps_state:
  assumes "projectType (formData st) = [] \<or> squareFootage (formData st) = []
           \<or> paintTier (formData st) = []"
  shows "calculateEstimate st = st"
  using assms by (auto simp: calculateEstimate_def calculateEstimate_with_def)

theorem incomplete_form_keeps_state_witness:
  "paintTier (scenario_A\<lparr>paintTier := []\<rparr>) = []
   \<and> calculateEstimate
       \<lparr>formData = scenario_A\<lparr>paintTier := []\<rparr>,
        estimate = Some \<lparr>min_price = Fin 3000, max_price = Fin 6000, tierName = Own ''Standard Paint''\<rparr>\<rparr>
     = \<lparr>formData = scenario_A\<lparr>paintTier := []\<rparr>,
        estimate = Some \<lparr>min_price = Fin 3000, max_price = Fin 6000, tierName = Own ''Standard Paint''\<rparr>\<rparr>"
proof -
  have h: "paintTier (scenario_A\<lparr>paintTier := []\<rparr>) = []" by simp
  show ?thesis
    using h incomplete_form_keeps_state
      [of "\<lparr>formData = scenario_A\<lparr>paintTier := []\<rparr>,
            estimate = Some \<lparr>min_price = Fin 3000, max_price = Fin 6000, tierName = Own ''Standard Paint''\<rparr>\<rparr>"]
    by simp
qed

section \<open>The two floors\<close>

text \<open>
  C4. For every valid input, \<open>calculateEstimate\<close> stores an estimate whose rounded
  minimum price is at least the absolute minimum 3000: it is an integer of at least
  3000, or \<open>Infinity\<close> when the price has left the range of a double; it is never
  \<open>NaN\<close>.
\<close>

theorem floor_invariant:
  assumes "valid_input (formData st)"
  shows "\<exists>r. estimate (calculateEstimate st) = Some r
           \<and> (min_price r = PosInf \<or> (\<exists>lo. min_price r = Fin (of_int lo) \<and> 3000 \<le> lo))"
proof -
  from assms obtain a b
    where raw: "raw_prices BASE_RATES (formData st) = (double_of a, double_of b)"
      and ab: "0 \<le> a" "0 \<le> b"
    by (rule valid_input_raw_prices)
  have "(0::rat) + of_int 3000 \<le> max a 3000" by simp
  from round_gap [OF this] have lo: "3000 \<le> \<lfloor>max a 3000 + 1 / 2\<rfloor>" by simp
  have "(0::rat) \<le> max a 3000" by simp
  from Math_round_double_of [OF this] lo
  have "Math_round (double_of (max a 3000)) = PosInf
      \<or> (\<exists>lo. Math_round (double_of (max a 3000)) = Fin (of_int lo) \<and> 3000 \<le> lo)"
    by (cases "overflow_threshold \<le> max a 3000") (simp_all del: max.bounded_iff)
  then show ?thesis
    by (simp add: calculateEstimate_valid [OF assms] estimate_with_double_of [OF raw ab]
        del: max.bounded_iff)
qed

theorem floor_invariant_witness:
  "valid_input scenario_A
   \<and> (\<exists>r. estimate (calculateEstimate \<lparr>formData = scenario_A, estimate = None\<rparr>) = Some r
          \<and> (min_price r = PosInf \<or> (\<exists>lo. min_price r = Fin (of_int lo) \<and> 3000 \<le> lo)))"
  using valid_scenario_A floor_invariant [of "\<lparr>formData = scenario_A, estimate = None\<rparr>"]
  by simp




section \<open>Order properties\<close>

text \<open>
  C6. With the project type, paint tier, difficulty level and surfaces fixed and
  valid, a square footage that reads as a larger number (both at least 100) gives a
  rounded minimum price and a rounded maximum price that are no smaller, the two
  floors included; \<open>Infinity\<close> is the largest price.
\<close>

theorem monotone_in_squareFootage:
  assumes "valid_input (formData st)"
    and "js_le (parseInt (squareFootage (formData st))) (parseInt s')"
  shows "\<exists>r r'. estimate (calculateEstimate st) = Some r
           \<and> estimate (calculateEstimate (st\<lparr>formData := (formData st)\<lparr>squareFootage := s'\<rparr>\<rparr>)) = Some r'
           \<and> js_le (min_price r) (min_price r') \<and> js_le (max_price r) (max_price r')"
proof -
  let ?fd = "formData st"
  let ?fd' = "?fd\<lparr>squareFootage := s'\<rparr>"
  let ?st' = "st\<lparr>formData := ?fd'\<rparr>"
  from assms(1) obtain p d s v
    where p: "paintMultiplier ?fd = Fin p" "1 \<le> p \<and> p \<le> 16 / 10"
      and d: "difficultyMultiplier ?fd = Fin d" "1 \<le> d \<and> d \<le> 25 / 10"
      and s: "surfaceMultiplier ?fd = Fin s" "1 \<le> s \<and> s \<le> 2"
      and v: "parseInt (squareFootage ?fd) = double_of v" "100 \<le> v" "v \<le> overflow_threshold"
    by (rule valid_input_numbers)
  from assms(1) have "js_le (Fin 100) (parseInt (squareFootage ?fd))"
    by (simp add: valid_input_def valid_squareFootage_def js_ge_def)
  from js_le_trans [OF this assms(2)] have valid_s': "valid_squareFootage s'"
    by (simp add: valid_squareFootage_def js_ge_def)
  then obtain v' where v': "parseInt s' = double_of v'" "100 \<le> v'" "v' \<le> overflow_threshold"
    by (rule valid_squareFootage_repr)
  from v(2) v'(2) have v0: "0 \<le> v" "0 \<le> v'" by simp_all
  from assms(2) have "js_le (double_of v) (double_of v')" by (simp only: v(1) v'(1))
  from double_of_le_D [OF this v0(1) v(3) v0(2) v'(3)] have le: "v \<le> v'" .
  define c1 where "c1 = 15 / 10 * (p * d * s)"
  define c2 where "c2 = 35 / 10 * (p * d * s)"
  from multiplier_product_between [OF p(2) d(2) s(2)] have c: "0 \<le> c1" "0 \<le> c2"
    by (simp_all add: c1_def c2_def)
  have raw: "raw_prices BASE_RATES ?fd = (double_of (v * c1), double_of (v * c2))"
    unfolding c1_def c2_def by (rule raw_prices_double_of [OF p(1) d(1) s(1) s(2) v(1) v0(1)])
  have raw': "raw_prices BASE_RATES ?fd' = (double_of (v' * c1), double_of (v' * c2))"
    unfolding c1_def c2_def
    by (rule raw_prices_double_of [OF _ _ _ s(2) _ v0(2)])
      (simp_all add: multipliers_squareFootage p(1) d(1) s(1) v'(1))
  from valid_input_squareFootage [OF assms(1) valid_s']
  have valid': "valid_input (formData ?st')" by simp
  have nn: "0 \<le> v * c1" "0 \<le> v * c2" "0 \<le> v' * c1" "0 \<le> v' * c2"
    using v0 c by simp_all
  have a: "v * c1 \<le> v' * c1" and b: "v * c2 \<le> v' * c2"
    using le c by (simp_all only: mult_right_mono)
  have lo: "max (v * c1) 3000 \<le> max (v' * c1) 3000"
    using a by (rule max.mono) simp
  have "max (v * c2) (v * c1 + 3000) \<le> max (v' * c2) (v' * c1 + 3000)"
    using b a by (intro max.mono) simp_all
  then have hi: "max (max (v * c2) (v * c1 + 3000)) 6000 \<le> max (max (v' * c2) (v' * c1 + 3000)) 6000"
    by (rule max.mono) simp
  have "(0::rat) \<le> max (v * c1) 3000" "(0::rat) \<le> max (max (v * c2) (v * c1 + 3000)) 6000"
    by simp_all
  from Math_round_double_of_mono [OF this(1) lo] Math_round_double_of_mono [OF this(2) hi]
  show ?thesis
    by (simp add: calculateEstimate_valid [OF assms(1)] calculateEstimate_valid [OF valid']
        estimate_with_double_of [OF raw nn(1,2)] estimate_with_double_of [OF raw' nn(3,4)]
        del: max.bounded_iff)
qed

theorem monotone_in_squareFootage_witness:
  "valid_input scenario_A
   \<and> js_le (parseInt (squareFootage scenario_A)) (parseInt ''2000'')
   \<and> (\<exists>r r'. estimate (calculateEstimate \<lparr>formData = scenario_A, estimate = None\<rparr>) = Some r
         \<and> estimate (calculateEstimate
              \<lparr>formData = scenario_A\<lparr>squareFootage := ''2000''\<rparr>, estimate = None\<rparr>) = Some r'
         \<and> js_le (min_price r) (min_price r') \<and> js_le (max_price r) (max_price r'))"
proof -
  have h: "js_le (parseInt (squareFootage scenario_A)) (parseInt ''2000'')"
    by (simp add: scenario_A_def initial_formData_def parseInt_scenarios)
  from monotone_in_squareFootage [of "\<lparr>formData = scenario_A, estimate = None\<rparr>" "''2000''"]
    valid_scenario_A h
  show ?thesis by simp
qed

text \<open>
  C7, as the specification states it: the minimum prices of the three tiers increase
  strictly whenever the minimum price before the floors (of the lower tier) exceeds
  3000. For a square footage of 15 followed by 307 zeros the price of the standard tier
  before the floors is already \<open>Infinity\<close>, which exceeds 3000, and the standard and
  the premium tier both store \<open>Infinity\<close>: the inequality is not strict.
\<close>

theorem tier_overflow_counterexample:
  "valid_input overflow_tiers
   \<and> js_gt (fst (raw_prices BASE_RATES (overflow_tiers\<lparr>paintTier := ''standard''\<rparr>))) (Fin absoluteMin)
   \<and> min_price (estimate_with BASE_RATES (overflow_tiers\<lparr>paintTier := ''standard''\<rparr>)) = PosInf
   \<and> min_price (estimate_with BASE_RATES (overflow_tiers\<lparr>paintTier := ''premium''\<rparr>)) = PosInf
   \<and> min_price (estimate_with BASE_RATES (overflow_tiers\<lparr>paintTier := ''designer''\<rparr>)) = PosInf
   \<and> estimate (calculateEstimate (handleTierSelect ''standard'' \<lparr>formData = overflow_tiers, estimate = None\<rparr>))
       = Some (estimate_with BASE_RATES (overflow_tiers\<lparr>paintTier := ''standard''\<rparr>))
   \<and> estimate (calculateEstimate (handleTierSelect ''premium'' \<lparr>formData = overflow_tiers, estimate = None\<rparr>))
       = Some (estimate_with BASE_RATES (overflow_tiers\<lparr>paintTier := ''premium''\<rparr>))
   \<and> \<not> js_lt (min_price (estimate_with BASE_RATES (overflow_tiers\<lparr>paintTier := ''standard''\<rparr>)))
          (min_price (estimate_with BASE_RATES (overflow_tiers\<lparr>paintTier := ''premium''\<rparr>)))"
  using valid_overflow_tiers
    calculateEstimate_tier [of "\<lparr>formData = overflow_tiers, estimate = None\<rparr>" "''standard''"]
    calculateEstimate_tier [of "\<lparr>formData = overflow_tiers, estimate = None\<rparr>" "''premium''"]
  by (simp add: overflow_tiers_results js_gt_def)

text \<open>
  C7, amended. With the other inputs equal and valid, the rounded minimum price for the
  standard tier is at most that for the premium tier, which is at most that for the
  designer tier. Each inequality is strict when the minimum price before the floors,
  for the lower of the two tiers compared, exceeds the absolute minimum 3000 and is
  finite.
\<close>

theorem tier_ordering:
  assumes "valid_input (formData st)"
  shows "\<exists>rs rp rd.
           estimate (calculateEstimate (handleTierSelect ''standard'' st)) = Some rs
           \<and> estimate (calculateEstimate (handleTierSelect ''premium'' st)) = Some rp
           \<and> estimate (calculateEstimate (handleTierSelect ''designer'' st)) = Some rd
           \<and> js_le (min_price rs) (min_price rp) \<and> js_le (min_price rp) (min_price rd)
           \<and> (js_gt (fst (raw_prices BASE_RATES (formData (handleTierSelect ''standard'' st))))
                 (Fin absoluteMin)
               \<and> js_lt (fst (raw_prices BASE_RATES (formData (handleTierSelect ''standard'' st)))) PosInf
               \<longrightarrow> js_lt (min_price rs) (min_price rp))
           \<and> (js_gt (fst (raw_prices BASE_RATES (formData (handleTierSelect ''premium'' st))))
                 (Fin absoluteMin)
               \<and> js_lt (fst (raw_prices BASE_RATES (formData (handleTierSelect ''premium'' st)))) PosInf
               \<longrightarrow> js_lt (min_price rp) (min_price rd))"
proof -
  let ?fd = "formData st"
  let ?raw = "\<lambda>t. raw_prices BASE_RATES (?fd\<lparr>paintTier := t\<rparr>)"
  let ?min = "\<lambda>t. min_price (estimate_with BASE_RATES (?fd\<lparr>paintTier := t\<rparr>))"
  from assms obtain p d s v
    where p: "paintMultiplier ?fd = Fin p" "1 \<le> p \<and> p \<le> 16 / 10"
      and d: "difficultyMultiplier ?fd = Fin d" "1 \<le> d \<and> d \<le> 25 / 10"
      and s: "surfaceMultiplier ?fd = Fin s" "1 \<le> s \<and> s \<le> 2"
      and v: "parseInt (squareFootage ?fd) = double_of v" "100 \<le> v" "v \<le> overflow_threshold"
    by (rule valid_input_numbers)
  from v(2) have v0: "0 \<le> v" by simp
  define x where "x = v * (15 / 10 * (d * s))"
  from d(2) s(2) have "0 \<le> 15 / 10 * (d * s)" by simp
  with v0 have x0: "0 \<le> x" unfolding x_def by simp
  have raw: "?raw t = (double_of (v * (15 / 10 * (q * d * s))), double_of (v * (35 / 10 * (q * d * s))))"
    if "paintMultiplier (?fd\<lparr>paintTier := t\<rparr>) = Fin q" for t q
    by (rule raw_prices_double_of [OF that _ _ s(2) _ v0])
      (simp_all add: multipliers_paintTier d(1) s(1) v(1))
  have e: "v * (15 / 10 * (1 * d * s)) = x" "v * (35 / 10 * (1 * d * s)) = 35 / 15 * x"
    "v * (15 / 10 * (13 / 10 * d * s)) = 13 / 10 * x"
    "v * (35 / 10 * (13 / 10 * d * s)) = 35 / 15 * (13 / 10 * x)"
    "v * (15 / 10 * (16 / 10 * d * s)) = 16 / 10 * x"
    "v * (35 / 10 * (16 / 10 * d * s)) = 35 / 15 * (16 / 10 * x)"
    by (simp_all add: x_def)
  have raw_s: "?raw ''standard'' = (double_of x, double_of (35 / 15 * x))"
    using raw [OF multipliers_paintTier(3)] by (simp only: e)
  have raw_p: "?raw ''premium'' = (double_of (13 / 10 * x), double_of (35 / 15 * (13 / 10 * x)))"
    using raw [OF multipliers_paintTier(4)] by (simp only: e)
  have raw_d: "?raw ''designer'' = (double_of (16 / 10 * x), double_of (35 / 15 * (16 / 10 * x)))"
    using raw [OF multipliers_paintTier(5)] by (simp only: e)
  have nn: "0 \<le> 35 / 15 * x" "0 \<le> 13 / 10 * x" "0 \<le> 35 / 15 * (13 / 10 * x)"
    "0 \<le> 16 / 10 * x" "0 \<le> 35 / 15 * (16 / 10 * x)"
    using x0 by simp_all
  have min_s: "?min ''standard'' = Math_round (double_of (max x 3000))"
    by (rule estimate_with_double_of(1) [OF raw_s x0 nn(1)])
  have min_p: "?min ''premium'' = Math_round (double_of (max (13 / 10 * x) 3000))"
    by (rule estimate_with_double_of(1) [OF raw_p nn(2) nn(3)])
  have min_d: "?min ''designer'' = Math_round (double_of (max (16 / 10 * x) 3000))"
    by (rule estimate_with_double_of(1) [OF raw_d nn(4) nn(5)])
  have ab: "js_le (?min ''standard'') (?min ''premium'')"
    unfolding min_s min_p using x0 by (intro Math_round_double_of_mono max.mono) simp_all
  have bc: "js_le (?min ''premium'') (?min ''designer'')"
    unfolding min_p min_d using x0 by (intro Math_round_double_of_mono max.mono) simp_all
  have strict: "js_lt (Math_round (double_of (max y 3000))) (Math_round (double_of (max z 3000)))"
    if y: "js_gt (double_of y) (Fin absoluteMin)" "js_lt (double_of y) PosInf" and yz: "y + 1 \<le> z"
      and y0: "0 \<le> y" for y z :: rat
  proof -
    from y y0 have range: "3000 < y" "y < overflow_threshold"
      by (simp_all add: double_of_nonneg js_gt_def absoluteMin_def split: if_splits)
    then have my: "max y 3000 = y" and mz: "max z 3000 = z" using yz by (simp_all add: max_def)
    from yz have "y + of_int 1 \<le> z" by simp
    from round_gap [OF this] have "\<lfloor>y + 1 / 2\<rfloor> < \<lfloor>z + 1 / 2\<rfloor>" by simp
    moreover from yz y0 have "0 \<le> z" by simp
    ultimately show ?thesis
      unfolding my mz using range y0 by (simp add: Math_round_double_of)
  qed
  have ab_strict: "js_lt (?min ''standard'') (?min ''premium'')"
    if "js_gt (fst (?raw ''standard'')) (Fin absoluteMin) \<and> js_lt (fst (?raw ''standard'')) PosInf"
  proof -
    from that have g: "js_gt (double_of x) (Fin absoluteMin)" "js_lt (double_of x) PosInf"
      by (simp_all add: raw_s)
    with x0 have "3000 < x" by (simp add: double_of_nonneg js_gt_def absoluteMin_def split: if_splits)
    then have "x + 1 \<le> 13 / 10 * x" by simp
    from strict [OF g this x0] show ?thesis by (simp only: min_s min_p)
  qed
  have bc_strict: "js_lt (?min ''premium'') (?min ''designer'')"
    if "js_gt (fst (?raw ''premium'')) (Fin absoluteMin) \<and> js_lt (fst (?raw ''premium'')) PosInf"
  proof -
    from that have g: "js_gt (double_of (13 / 10 * x)) (Fin absoluteMin)"
      "js_lt (double_of (13 / 10 * x)) PosInf"
      by (simp_all add: raw_p)
    with nn(2) have "3000 < 13 / 10 * x"
      by (simp add: double_of_nonneg js_gt_def absoluteMin_def split: if_splits)
    then have "13 / 10 * x + 1 \<le> 16 / 10 * x" by simp
    from strict [OF g this nn(2)] show ?thesis by (simp only: min_p min_d)
  qed
  have est: "estimate (calculateEstimate (handleTierSelect ''standard'' st))
        = Some (estimate_with BASE_RATES (?fd\<lparr>paintTier := ''standard''\<rparr>))"
    "estimate (calculateEstimate (handleTierSelect ''premium'' st))
        = Some (estimate_with BASE_RATES (?fd\<lparr>paintTier := ''premium''\<rparr>))"
    "estimate (calculateEstimate (handleTierSelect ''designer'' st))
        = Some (estimate_with BASE_RATES (?fd\<lparr>paintTier := ''designer''\<rparr>))"
    by (simp_all add: calculateEstimate_tier [OF assms])
  show ?thesis
    unfolding est formData_handleTierSelect
    using ab bc ab_strict bc_strict by blast
qed

theorem tier_ordering_witness:
  "valid_input scenario_B
   \<and> js_gt (fst (raw_prices BASE_RATES (scenario_B\<lparr>paintTier := ''standard''\<rparr>))) (Fin absoluteMin)
   \<and> js_lt (fst (raw_prices BASE_RATES (scenario_B\<lparr>paintTier := ''standard''\<rparr>))) PosInf
   \<and> js_gt (fst (raw_prices BASE_RATES (scenario_B\<lparr>paintTier := ''premium''\<rparr>))) (Fin absoluteMin)
   \<and> js_lt (fst (raw_prices BASE_RATES (scenario_B\<lparr>paintTier := ''premium''\<rparr>))) PosInf
   \<and> (\<exists>rs rp rd.
         estimate (calculateEstimate (handleTierSelect ''standard'' \<lparr>formData = scenario_B, estimate = None\<rparr>)) = Some rs
         \<and> estimate (calculateEstimate (handleTierSelect ''premium'' \<lparr>formData = scenario_B, estimate = None\<rparr>)) = Some rp
         \<and> estimate (calculateEstimate (handleTierSelect ''designer'' \<lparr>formData = scenario_B, estimate = None\<rparr>)) = Some rd
         \<and> js_lt (min_price rs) (min_price rp) \<and> js_lt (min_price rp) (min_price rd))"
proof -
  have g: "js_gt (fst (raw_prices BASE_RATES (scenario_B\<lparr>paintTier := ''standard''\<rparr>))) (Fin absoluteMin)"
    "js_lt (fst (raw_prices BASE_RATES (scenario_B\<lparr>paintTier := ''standard''\<rparr>))) PosInf"
    "js_gt (fst (raw_prices BASE_RATES (scenario_B\<lparr>paintTier := ''premium''\<rparr>))) (Fin absoluteMin)"
    "js_lt (fst (raw_prices BASE_RATES (scenario_B\<lparr>paintTier := ''premium''\<rparr>))) PosInf"
    by (simp_all add: raw_prices_scenario_B_standard raw_prices_scenario_B_premium js_Fin absoluteMin_def)
  from tier_ordering [of "\<lparr>formData = scenario_B, estimate = None\<rparr>"] valid_scenario_B g
  have "\<exists>rs rp rd.
         estimate (calculateEstimate (handleTierSelect ''standard'' \<lparr>formData = scenario_B, estimate = None\<rparr>)) = Some rs
         \<and> estimate (calculateEstimate (handleTierSelect ''premium'' \<lparr>formData = scenario_B, estimate = None\<rparr>)) = Some rp
         \<and> estimate (calculateEstimate (handleTierSelect ''designer'' \<lparr>formData = scenario_B, estimate = None\<rparr>)) = Some rd
         \<and> js_le (min_price rs) (min_price rp) \<and> js_le (min_price rp) (min_price rd)
         \<and> js_lt (min_price rs) (min_price rp) \<and> js_lt (min_price rp) (min_price rd)"
    by (simp add: formData_handleTierSelect)
  then have "\<exists>rs rp rd.
         estimate (calculateEstimate (handleTierSelect ''standard'' \<lparr>formData = scenario_B, estimate = None\<rparr>)) = Some rs
         \<and> estimate (calculateEstimate (handleTierSelect ''premium'' \<lparr>formData = scenario_B, estimate = None\<rparr>)) = Some rp
         \<and> estimate (calculateEstimate (handleTierSelect ''designer'' \<lparr>formData = scenario_B, estimate = None\<rparr>)) = Some rd
         \<and> js_lt (min_price rs) (min_price rp) \<and> js_lt (min_price rp) (min_price rd)"
    by blast
  with valid_scenario_B g show ?thesis by (intro conjI)
qed

section \<open>The scenarios\<close>

text \<open>
  C3. Scenario A: interior, 1000 square feet, standard tier, basic difficulty, walls.
  The prices before the floors are 1500 and 3500; the spread floor raises the maximum
  to 4500; the absolute floor raises the minimum to 3000 and the maximum to the larger
  of 4500 and 6000. The stored estimate is 3000 to 6000.
\<close>

theorem scenario_A_estimate:
  "raw_prices BASE_RATES scenario_A = (Fin 1500, Fin 3500)
   \<and> spread_floor (Fin 1500, Fin 3500) = (Fin 1500, Fin 4500)
   \<and> absolute_floor (Fin 1500, Fin 4500) = (Fin 3000, Fin (max 4500 6000))
   \<and> calculateEstimate \<lparr>formData = scenario_A, estimate = e\<rparr>
       = \<lparr>formData = scenario_A,
          estimate = Some \<lparr>min_price = Fin 3000, max_price = Fin 6000, tierName = Own ''Standard Paint''\<rparr>\<rparr>"
  by (simp add: scenario_A_def calculateEstimate_def calculateEstimate_with_def eval_defs)

text \<open>
  C1. Scenario B: exterior, 2000 square feet, premium tier, standard difficulty, brick
  and trim. The surface multiplier is 1.6 + 0.2, the band per square foot is 4.212 to
  9.828, the prices before the floors are 8424 and 19656, and neither floor changes
  them. The stored estimate is 8424 to 19656.
\<close>

theorem scenario_B_estimate:
  "surfaceMultiplier scenario_B = Fin (16 / 10 + 2 / 10)
   \<and> base_band BASE_RATES scenario_B = (Fin (4212 / 1000), Fin (9828 / 1000))
   \<and> raw_prices BASE_RATES scenario_B = (Fin 8424, Fin 19656)
   \<and> spread_floor (Fin 8424, Fin 19656) = (Fin 8424, Fin 19656)
   \<and> absolute_floor (Fin 8424, Fin 19656) = (Fin 8424, Fin 19656)
   \<and> calculateEstimate \<lparr>formData = scenario_B, estimate = e\<rparr>
       = \<lparr>formData = scenario_B,
          estimate = Some \<lparr>min_price = Fin 8424, max_price = Fin 19656, tierName = Own ''Premium Paint''\<rparr>\<rparr>"
  by (simp add: scenario_B_def calculateEstimate_def calculateEstimate_with_def eval_defs)

section \<open>Trim in a combined project\<close>

text \<open>
  C2, as the specification states it: for the project type \<open>both\<close> and trim as the
  only surface, the exterior accumulator would be 1.0 + 0.2 and the surface multiplier
  1.1. The code gives 1.0 for both: the trim weight is added to the exterior
  accumulator behind a test that a primary exterior surface is selected.
\<close>

theorem both_trim_only_counterexample:
  "both_exteriorMultiplier (surfaces both_trim_only) = Fin 1
   \<and> both_exteriorMultiplier (surfaces both_trim_only) \<noteq> Fin (1 + 2 / 10)
   \<and> surfaceMultiplier both_trim_only = Fin 1
   \<and> surfaceMultiplier both_trim_only \<noteq> Fin (11 / 10)"
  by (simp add: both_trim_only_def eval_defs)

text \<open>
  C2, amended. For the project type \<open>both\<close>, selecting trim adds the exterior trim
  weight 0.2 to the exterior accumulator exactly when a primary exterior surface is
  selected as well; with no primary exterior surface the accumulator is 1.0, with or
  without trim. The surface multiplier is the mean of the larger of the interior
  accumulator and 1.0, and the exterior accumulator. For trim alone the accumulators
  are 0 and 1.0 and the multiplier is (max(0, 1.0) + 1.0) / 2 = 1.0.
\<close>

theorem both_trim_needs_exterior_surface:
  "both_exteriorMultiplier ss
     = js_add (both_exteriorMultiplier (removeAll ''trim'' ss))
         (Fin (if ''trim'' \<in> set ss \<and> exteriorSurfaces ss \<noteq> [] then 2 / 10 else 0))
   \<and> (exteriorSurfaces ss = [] \<longrightarrow> both_exteriorMultiplier ss = Fin 1)
   \<and> (projectType fd = ''both'' \<and> surfaces fd \<noteq> [] \<longrightarrow>
        surfaceMultiplier fd
          = js_half (js_add (Math_max (both_interiorMultiplier (surfaces fd)) (Fin 1))
              (both_exteriorMultiplier (surfaces fd))))
   \<and> both_interiorMultiplier (surfaces both_trim_only) = Fin 0
   \<and> both_exteriorMultiplier (surfaces both_trim_only) = Fin 1
   \<and> surfaceMultiplier both_trim_only = Fin ((max 0 1 + 1) / 2)
   \<and> surfaceMultiplier both_trim_only = Fin 1"
proof -
  have 1: "both_exteriorMultiplier ss
     = js_add (both_exteriorMultiplier (removeAll ''trim'' ss))
         (Fin (if ''trim'' \<in> set ss \<and> exteriorSurfaces ss \<noteq> [] then 2 / 10 else 0))"
  proof (cases "exteriorSurfaces ss = []")
    case True
    then have "both_exteriorMultiplier ss = Fin 1"
      by (simp add: both_exteriorMultiplier_def Let_def)
    moreover from True have "both_exteriorMultiplier (removeAll ''trim'' ss) = Fin 1"
      by (simp only: both_exteriorMultiplier_removeAll_trim) simp
    ultimately show ?thesis using True by (simp add: double_of_small)
  next
    case False
    from exterior_max_between [OF this] obtain b
      where b: "Math_max_spread (exteriorMultipliers ss) = Fin b" "1 \<le> b" "b \<le> 16 / 10"
      by blast
    then have b0: "double_of b = Fin b" by (simp add: double_of_small)
    from False b(1) have l: "both_exteriorMultiplier ss
        = (if ''trim'' \<in> set ss then js_add (Fin b) (Fin (2 / 10)) else Fin b)"
      by (simp add: both_exteriorMultiplier_def Let_def exterior_trim)
    from False b(1) have r: "both_exteriorMultiplier (removeAll ''trim'' ss) = Fin b"
      by (simp only: both_exteriorMultiplier_removeAll_trim) simp
    show ?thesis unfolding l r using False b0 by simp
  qed
  have 2: "exteriorSurfaces ss = [] \<longrightarrow> both_exteriorMultiplier ss = Fin 1"
    by (simp add: both_exteriorMultiplier_def Let_def)
  have 3: "projectType fd = ''both'' \<and> surfaces fd \<noteq> [] \<longrightarrow>
        surfaceMultiplier fd
          = js_half (js_add (Math_max (both_interiorMultiplier (surfaces fd)) (Fin 1))
              (both_exteriorMultiplier (surfaces fd)))"
    by (simp add: surfaceMultiplier_def both_surfaceMultiplier_def)
  have 4: "both_interiorMultiplier (surfaces both_trim_only) = Fin 0"
    "both_exteriorMultiplier (surfaces both_trim_only) = Fin 1"
    "surfaceMultiplier both_trim_only = Fin ((max 0 1 + 1) / 2)"
    "surfaceMultiplier both_trim_only = Fin 1"
    by (simp_all add: both_trim_only_def eval_defs)
  from 1 2 3 4 show ?thesis by (intro conjI)
qed

theorem both_trim_needs_exterior_surface_witness:
  "exteriorSurfaces [''trim''] = [] \<and> both_exteriorMultiplier [''trim''] = Fin 1
   \<and> projectType both_trim_only = ''both'' \<and> surfaces both_trim_only \<noteq> []
   \<and> surfaceMultiplier both_trim_only
       = js_half (js_add (Math_max (both_interiorMultiplier (surfaces both_trim_only)) (Fin 1))
           (both_exteriorMultiplier (surfaces both_trim_only)))"
proof -
  have h1: "exteriorSurfaces [''trim''] = []" by (simp add: exteriorSurfaces_def)
  have h2: "projectType both_trim_only = ''both''" "surfaces both_trim_only \<noteq> []"
    by (simp_all add: both_trim_only_def initial_formData_def)
  from both_trim_needs_exterior_surface [of "[''trim'']" both_trim_only] h1 h2
  show ?thesis by blast
qed

section \<open>A tier that is no key of the table\<close>

text \<open>
  C8. The tier \<open>constructor\<close> is no key of the tier table, so the claim has it treated
  as the multiplier 1.0, which for scenario A gives 3000 to 6000. The lookup finds the
  member of that name that every object inherits, \<open>||\<close> keeps it as truthy, and the
  multiplication turns it into \<open>NaN\<close>: both stored prices are \<open>NaN\<close>.
\<close>

theorem inherited_key_gives_NaN:
  "get_property PAINT_MULTIPLIERS ''constructor'' = Inherited
   \<and> paintMultiplier inherited_tier = NaN
   \<and> calculateEstimate \<lparr>formData = inherited_tier, estimate = e\<rparr>
       = \<lparr>formData = inherited_tier,
          estimate = Some \<lparr>min_price = NaN, max_price = NaN, tierName = Inherited\<rparr>\<rparr>
   \<and> calculateEstimate \<lparr>formData = scenario_A, estimate = e\<rparr>
       = \<lparr>formData = scenario_A,
          estimate = Some \<lparr>min_price = Fin 3000, max_price = Fin 6000, tierName = Own ''Standard Paint''\<rparr>\<rparr>"
  by (simp add: inherited_tier_def scenario_A_def calculateEstimate_def calculateEstimate_with_def
      eval_defs)

end
